theory Spec2Isabelle
  imports Main "HOL-Library.Char_ord" "HOL-Library.List_Lexorder" "HOL-Library.Product_Lexorder"
begin

section \<open>JavaScript values of request bodies and responses\<close>

text \<open>
  A request body is whatever \<^verbatim>\<open>express.json()\<close> parsed; a response body is the value handed
  to \<^verbatim>\<open>res.json\<close>. Numbers are modelled as integers (the schema's only numeric columns are
  \<^verbatim>\<open>match_pct\<close> and \<^verbatim>\<open>sort_order\<close>); an object is the list of its own properties, read
  with \<open>map_of\<close>. \<open>JUndefined\<close> is the value of a property that is absent.
\<close>

datatype json =
    JUndefined
  | JNull
  | JBool bool
  | JNum int
  | JStr string
  | JArr "json list"
  | JObj "(string \<times> json) list"

text \<open>The falsy values of JavaScript: undefined, null, false, 0 and the empty string.\<close>

fun truthy :: "json \<Rightarrow> bool" where
  "truthy JUndefined = False"
| "truthy JNull = False"
| "truthy (JBool b) = b"
| "truthy (JNum n) = (n \<noteq> 0)"
| "truthy (JStr s) = (s \<noteq> [])"
| "truthy (JArr xs) = True"
| "truthy (JObj kvs) = True"

text \<open>The operator \<^verbatim>\<open>a || b\<close>.\<close>

definition or_else :: "json \<Rightarrow> json \<Rightarrow> json" where
  "or_else a b = (if truthy a then a else b)"

text \<open>
  Reading a property of undefined or null throws a TypeError; that case is \<open>nullish\<close> and
  is checked by the callers. On every other value the properties the handlers read
  (the column names and \<^verbatim>\<open>grants\<close>) exist only if the value is an object that has them.
\<close>

fun nullish :: "json \<Rightarrow> bool" where
  "nullish JUndefined = True"
| "nullish JNull = True"
| "nullish v = False"

fun field :: "json \<Rightarrow> string \<Rightarrow> json" where
  "field (JObj kvs) k = (case map_of kvs k of None \<Rightarrow> JUndefined | Some v \<Rightarrow> v)"
| "field v k = JUndefined"

datatype error =
    TypeError
  | BindError
  | SQLITE_CONSTRAINT_NOTNULL
  | SQLITE_CONSTRAINT_PRIMARYKEY
  | SQLITE_CONSTRAINT_FOREIGNKEY
  | EntityParseFailed

text \<open>
  A handler either answers through \<^verbatim>\<open>res.status(n).json(v)\<close> (status 200 when none is
  set) or throws. No error handler is registered, so express answers an error itself:
  with the error's own status where it has one, which of these errors only the body
  parser's has (\<open>EntityParseFailed\<close>, status 400), and with 500 otherwise.
\<close>

datatype outcome = Response nat json | Uncaught error

fun status_code :: "outcome \<Rightarrow> nat" where
  "status_code (Response n v) = n"
| "status_code (Uncaught EntityParseFailed) = 400"
| "status_code (Uncaught err) = 500"

section \<open>The store: two tables\<close>

text \<open>A column value of SQLite: NULL, an integer or a text.\<close>

datatype cell = NULL | INTEGER int | TEXT string

fun cell_json :: "cell \<Rightarrow> json" where
  "cell_json NULL = JNull"
| "cell_json (INTEGER n) = JNum n"
| "cell_json (TEXT s) = JStr s"

text \<open>
  The columns \<^verbatim>\<open>id\<close>, \<^verbatim>\<open>client_id\<close>, \<^verbatim>\<open>created_at\<close>, \<^verbatim>\<open>updated_at\<close> and \<^verbatim>\<open>sort_order\<close>
  only ever receive a string or a number that the server made itself (a hex token, a
  path parameter, \<^verbatim>\<open>datetime('now')\<close>, a list position); they are typed accordingly. The
  other columns receive request data and hold cells. \<open>g_rowid\<close> is the implicit rowid of
  the grants table, which the reads order by.
\<close>

record client_row =
  c_id :: string
  c_name :: cell
  c_contact :: cell
  c_sector :: cell
  c_email :: cell
  c_phone :: cell
  c_message :: cell
  c_presenter :: cell
  c_created_at :: string
  c_updated_at :: string

record grant_row =
  g_rowid :: nat
  g_id :: string
  g_client_id :: string
  g_name :: cell
  g_org :: cell
  g_cat :: cell
  g_amount :: cell
  g_cover :: cell
  g_deadline :: cell
  g_status :: cell
  g_match_pct :: cell
  g_notes :: cell
  g_sort_order :: int

text \<open>Each table is the list of its rows in the order they were inserted.\<close>

record store =
  clients :: "client_row list"
  grants :: "grant_row list"

definition empty_store :: store where
  "empty_store = \<lparr>clients = [], grants = []\<rparr>"

section \<open>What the server takes from outside\<close>

text \<open>
  \<open>ADMIN_PASSWORD\<close> is the environment variable; \<open>datetime_now\<close> is what
  \<^verbatim>\<open>datetime('now')\<close> yields during the request; \<open>randomBytes_hex i\<close> is the result of the
  \<open>i\<close>-th call (from 0) of \<^verbatim>\<open>crypto.randomBytes(8).toString('hex')\<close> in the request.
  The last two are SQLite's column affinity, of which the schema only fixes the cases
  below: \<open>text_of_number\<close> renders a number stored into a TEXT column, and
  \<open>integer_of_text\<close> is the cell that a text becomes in the INTEGER column.
\<close>

record env =
  ADMIN_PASSWORD :: "string option"
  datetime_now :: string
  randomBytes_hex :: "nat \<Rightarrow> string"
  text_of_number :: "int \<Rightarrow> string"
  integer_of_text :: "string \<Rightarrow> cell"

definition ADMIN_PASS :: "env \<Rightarrow> string" where
  "ADMIN_PASS e =
     (case ADMIN_PASSWORD e of
        None \<Rightarrow> ''grants2024''
      | Some p \<Rightarrow> if p = [] then ''grants2024'' else p)"

text \<open>The default presenter label of the source, as the bytes of its UTF-8 encoding.\<close>

definition DEFAULT_PRESENTER :: string where
  "DEFAULT_PRESENTER = map char_of
     [0xD7, 0x9E, 0xD7, 0xA2, 0xD7, 0xA0, 0xD7, 0xA7, 0xD7, 0x99, 0xD7, 0x9D, 0x20,
      0xD7, 0x91, 0xD7, 0xA7, 0xD7, 0x9C, 0xD7, 0x99, 0xD7, 0xA7 :: nat]"

section \<open>Statements\<close>

subsection \<open>Binding the arguments of \<^verbatim>\<open>run\<close>\<close>

text \<open>
  better-sqlite3 binds a string, a number, null and undefined, and rejects a boolean.
  An array argument stands for its elements, bound to the next placeholders in turn;
  a plain object argument carries named parameters, of which these statements have
  none, so it binds no placeholder, and a second one is rejected. The number of bound
  values must be the number of placeholders. The model binds the middle arguments of
  each \<^verbatim>\<open>run\<close> this way; the leading identifiers and the trailing one are strings or a
  position, which always land on the first and the last placeholders.
\<close>

fun bind_value :: "json \<Rightarrow> error + cell" where
  "bind_value JUndefined = Inr NULL"
| "bind_value JNull = Inr NULL"
| "bind_value (JNum n) = Inr (INTEGER n)"
| "bind_value (JStr s) = Inr (TEXT s)"
| "bind_value v = Inl BindError"

fun bind_values :: "json list \<Rightarrow> error + cell list" where
  "bind_values [] = Inr []"
| "bind_values (v # vs) =
     (case bind_value v of
        Inl err \<Rightarrow> Inl err
      | Inr c \<Rightarrow> (case bind_values vs of Inl err \<Rightarrow> Inl err | Inr cs \<Rightarrow> Inr (c # cs)))"

fun bind_args :: "bool \<Rightarrow> json list \<Rightarrow> error + cell list" where
  "bind_args ob [] = Inr []"
| "bind_args ob (JArr xs # args) =
     (case bind_values xs of
        Inl err \<Rightarrow> Inl err
      | Inr cs \<Rightarrow> (case bind_args ob args of Inl err \<Rightarrow> Inl err | Inr ds \<Rightarrow> Inr (cs @ ds)))"
| "bind_args ob (JObj kvs # args) = (if ob then Inl BindError else bind_args True args)"
| "bind_args ob (v # args) =
     (case bind_value v of
        Inl err \<Rightarrow> Inl err
      | Inr c \<Rightarrow> (case bind_args ob args of Inl err \<Rightarrow> Inl err | Inr ds \<Rightarrow> Inr (c # ds)))"

definition bind_params :: "nat \<Rightarrow> json list \<Rightarrow> error + cell list" where
  "bind_params n args =
     (case bind_args False args of
        Inl err \<Rightarrow> Inl err
      | Inr cs \<Rightarrow> if length cs = n then Inr cs else Inl BindError)"

subsection \<open>Column affinity\<close>

fun text_affinity :: "env \<Rightarrow> cell \<Rightarrow> cell" where
  "text_affinity e (INTEGER n) = TEXT (text_of_number e n)"
| "text_affinity e c = c"

fun integer_affinity :: "env \<Rightarrow> cell \<Rightarrow> cell" where
  "integer_affinity e (TEXT s) = integer_of_text e s"
| "integer_affinity e c = c"

subsection \<open>The SQL statements of the source\<close>

text \<open>
  The connection enforces the schema's constraints: the primary keys, \<^verbatim>\<open>NOT NULL\<close> on
  \<^verbatim>\<open>clients.name\<close>, and the foreign key of \<^verbatim>\<open>grants.client_id\<close> with its
  \<^verbatim>\<open>ON DELETE CASCADE\<close> (better-sqlite3 opens every database with foreign keys on).
  There is no transaction in the source, so every statement commits on its own.
  A new row gets the rowid one above the largest in the table (1 in an empty table);
  rowids are natural numbers here, the 64-bit limit of SQLite is not modelled.
\<close>

definition next_rowid :: "grant_row list \<Rightarrow> nat" where
  "next_rowid gs = Suc (foldr max (map g_rowid gs) 0)"

text \<open>\<^verbatim>\<open>SELECT * FROM clients ORDER BY created_at DESC\<close>; SQL leaves the order of rows with
  equal \<^verbatim>\<open>created_at\<close> open, the model keeps them in table order.\<close>

definition select_clients :: "store \<Rightarrow> client_row list" where
  "select_clients s = rev (sort_key c_created_at (rev (clients s)))"

text \<open>\<^verbatim>\<open>SELECT * FROM clients WHERE id = ?\<close>, read with \<^verbatim>\<open>get\<close>: the first row, if any.\<close>

definition select_client :: "store \<Rightarrow> string \<Rightarrow> client_row option" where
  "select_client s i = find (\<lambda>c. c_id c = i) (clients s)"

text \<open>\<^verbatim>\<open>SELECT * FROM grants WHERE client_id = ? ORDER BY sort_order, rowid\<close>\<close>

definition select_grants :: "store \<Rightarrow> string \<Rightarrow> grant_row list" where
  "select_grants s cid =
     sort_key (\<lambda>g. (g_sort_order g, g_rowid g)) (filter (\<lambda>g. g_client_id g = cid) (grants s))"

text \<open>The seven columns that both client statements write, from the bound cells in order.\<close>

definition set_client_columns :: "env \<Rightarrow> cell list \<Rightarrow> client_row \<Rightarrow> client_row" where
  "set_client_columns e cs c =
     c\<lparr>c_name := text_affinity e (cs ! 0),
       c_contact := text_affinity e (cs ! 1),
       c_sector := text_affinity e (cs ! 2),
       c_email := text_affinity e (cs ! 3),
       c_phone := text_affinity e (cs ! 4),
       c_message := text_affinity e (cs ! 5),
       c_presenter := text_affinity e (cs ! 6)\<rparr>"

text \<open>\<^verbatim>\<open>INSERT INTO clients (id, name, contact, sector, email, phone, message, presenter)
  VALUES (?, ?, ?, ?, ?, ?, ?, ?)\<close>; both timestamps take their default \<^verbatim>\<open>datetime('now')\<close>.\<close>

definition insert_client :: "env \<Rightarrow> string \<Rightarrow> json list \<Rightarrow> store \<Rightarrow> error + store" where
  "insert_client e i args s =
     (case bind_params 7 args of
        Inl err \<Rightarrow> Inl err
      | Inr cs \<Rightarrow>
          if text_affinity e (cs ! 0) = NULL then Inl SQLITE_CONSTRAINT_NOTNULL
          else if i \<in> set (map c_id (clients s)) then Inl SQLITE_CONSTRAINT_PRIMARYKEY
          else Inr (s\<lparr>clients := clients s @
            [set_client_columns e cs
               \<lparr>c_id = i, c_name = NULL, c_contact = NULL, c_sector = NULL, c_email = NULL,
                c_phone = NULL, c_message = NULL, c_presenter = NULL,
                c_created_at = datetime_now e, c_updated_at = datetime_now e\<rparr>]\<rparr>))"

text \<open>\<^verbatim>\<open>UPDATE clients SET name=?, contact=?, sector=?, email=?, phone=?, message=?,
  presenter=?, updated_at=datetime('now') WHERE id=?\<close>\<close>

definition update_client :: "env \<Rightarrow> json list \<Rightarrow> string \<Rightarrow> store \<Rightarrow> error + store" where
  "update_client e args i s =
     (case bind_params 7 args of
        Inl err \<Rightarrow> Inl err
      | Inr cs \<Rightarrow>
          if i \<in> set (map c_id (clients s)) \<and> text_affinity e (cs ! 0) = NULL
          then Inl SQLITE_CONSTRAINT_NOTNULL
          else Inr (s\<lparr>clients := map (\<lambda>c. if c_id c = i
                 then (set_client_columns e cs c)\<lparr>c_updated_at := datetime_now e\<rparr> else c)
               (clients s)\<rparr>))"

text \<open>\<^verbatim>\<open>DELETE FROM clients WHERE id = ?\<close>; deleting a client row deletes the grants that
  reference it.\<close>

definition delete_client :: "string \<Rightarrow> store \<Rightarrow> store" where
  "delete_client i s =
     (if i \<in> set (map c_id (clients s))
      then \<lparr>clients = filter (\<lambda>c. c_id c \<noteq> i) (clients s),
            grants = filter (\<lambda>g. g_client_id g \<noteq> i) (grants s)\<rparr>
      else s)"

text \<open>The nine columns that the grant statements write, from the bound cells in order.\<close>

definition set_grant_columns :: "env \<Rightarrow> cell list \<Rightarrow> grant_row \<Rightarrow> grant_row" where
  "set_grant_columns e cs g =
     g\<lparr>g_name := text_affinity e (cs ! 0),
       g_org := text_affinity e (cs ! 1),
       g_cat := text_affinity e (cs ! 2),
       g_amount := text_affinity e (cs ! 3),
       g_cover := text_affinity e (cs ! 4),
       g_deadline := text_affinity e (cs ! 5),
       g_status := text_affinity e (cs ! 6),
       g_match_pct := integer_affinity e (cs ! 7),
       g_notes := text_affinity e (cs ! 8)\<rparr>"

text \<open>\<^verbatim>\<open>INSERT INTO grants (id, client_id, name, org, cat, amount, cover, deadline, status,
  match_pct, notes, sort_order) VALUES (?, ?, ?, ?, ?, ?, ?, ?, ?, ?, ?, ?)\<close>. The
  statement of the single create omits \<^verbatim>\<open>sort_order\<close>, which then takes its default 0.\<close>

definition insert_grant ::
  "env \<Rightarrow> string \<Rightarrow> string \<Rightarrow> json list \<Rightarrow> int \<Rightarrow> store \<Rightarrow> error + store" where
  "insert_grant e i cid args so s =
     (case bind_params 9 args of
        Inl err \<Rightarrow> Inl err
      | Inr cs \<Rightarrow>
          if i \<in> set (map g_id (grants s)) then Inl SQLITE_CONSTRAINT_PRIMARYKEY
          else if cid \<notin> set (map c_id (clients s)) then Inl SQLITE_CONSTRAINT_FOREIGNKEY
          else Inr (s\<lparr>grants := grants s @
            [set_grant_columns e cs
               \<lparr>g_rowid = next_rowid (grants s), g_id = i, g_client_id = cid, g_name = NULL,
                g_org = NULL, g_cat = NULL, g_amount = NULL, g_cover = NULL, g_deadline = NULL,
                g_status = NULL, g_match_pct = NULL, g_notes = NULL, g_sort_order = so\<rparr>]\<rparr>))"

text \<open>\<^verbatim>\<open>UPDATE grants SET name=?, org=?, cat=?, amount=?, cover=?, deadline=?, status=?,
  match_pct=?, notes=? WHERE id=?\<close>\<close>

definition update_grant :: "env \<Rightarrow> json list \<Rightarrow> string \<Rightarrow> store \<Rightarrow> error + store" where
  "update_grant e args i s =
     (case bind_params 9 args of
        Inl err \<Rightarrow> Inl err
      | Inr cs \<Rightarrow>
          Inr (s\<lparr>grants := map (\<lambda>g. if g_id g = i then set_grant_columns e cs g else g)
               (grants s)\<rparr>))"

text \<open>\<^verbatim>\<open>DELETE FROM grants WHERE id = ?\<close>\<close>

definition delete_grant :: "string \<Rightarrow> store \<Rightarrow> store" where
  "delete_grant i s = s\<lparr>grants := filter (\<lambda>g. g_id g \<noteq> i) (grants s)\<rparr>"

text \<open>\<^verbatim>\<open>DELETE FROM grants WHERE client_id = ?\<close>\<close>

definition delete_grants_of :: "string \<Rightarrow> store \<Rightarrow> store" where
  "delete_grants_of cid s = s\<lparr>grants := filter (\<lambda>g. g_client_id g \<noteq> cid) (grants s)\<rparr>"

section \<open>The request handlers\<close>

text \<open>A row as \<^verbatim>\<open>SELECT *\<close> returns it: the properties in column order.\<close>

definition client_props :: "client_row \<Rightarrow> (string \<times> json) list" where
  "client_props c =
     [(''id'', JStr (c_id c)), (''name'', cell_json (c_name c)),
      (''contact'', cell_json (c_contact c)), (''sector'', cell_json (c_sector c)),
      (''email'', cell_json (c_email c)), (''phone'', cell_json (c_phone c)),
      (''message'', cell_json (c_message c)), (''presenter'', cell_json (c_presenter c)),
      (''created_at'', JStr (c_created_at c)), (''updated_at'', JStr (c_updated_at c))]"

definition grant_props :: "grant_row \<Rightarrow> (string \<times> json) list" where
  "grant_props g =
     [(''id'', JStr (g_id g)), (''client_id'', JStr (g_client_id g)),
      (''name'', cell_json (g_name g)), (''org'', cell_json (g_org g)),
      (''cat'', cell_json (g_cat g)), (''amount'', cell_json (g_amount g)),
      (''cover'', cell_json (g_cover g)), (''deadline'', cell_json (g_deadline g)),
      (''status'', cell_json (g_status g)), (''match_pct'', cell_json (g_match_pct g)),
      (''notes'', cell_json (g_notes g)), (''sort_order'', JNum (g_sort_order g))]"

text \<open>The argument lists of the source: \<^verbatim>\<open>name, contact||'', sector||'', ...\<close> and
  \<^verbatim>\<open>name||'', org||'', ..., status||'open', match_pct||70, notes||''\<close>.\<close>

definition client_args :: "json \<Rightarrow> json list" where
  "client_args b =
     [field b ''name'',
      or_else (field b ''contact'') (JStr ''''),
      or_else (field b ''sector'') (JStr ''''),
      or_else (field b ''email'') (JStr ''''),
      or_else (field b ''phone'') (JStr ''''),
      or_else (field b ''message'') (JStr ''''),
      or_else (field b ''presenter'') (JStr DEFAULT_PRESENTER)]"

definition grant_args :: "json \<Rightarrow> json list" where
  "grant_args b =
     [or_else (field b ''name'') (JStr ''''),
      or_else (field b ''org'') (JStr ''''),
      or_else (field b ''cat'') (JStr ''''),
      or_else (field b ''amount'') (JStr ''''),
      or_else (field b ''cover'') (JStr ''''),
      or_else (field b ''deadline'') (JStr ''''),
      or_else (field b ''status'') (JStr ''open''),
      or_else (field b ''match_pct'') (JNum 70),
      or_else (field b ''notes'') (JStr '''')]"

definition ok :: json where
  "ok = JObj [(''ok'', JBool True)]"

definition requireAdmin ::
  "env \<Rightarrow> string option \<Rightarrow> (store \<Rightarrow> outcome \<times> store) \<Rightarrow> store \<Rightarrow> outcome \<times> store" where
  "requireAdmin e auth handler s =
     (if auth \<noteq> Some (ADMIN_PASS e)
      then (Response 401 (JObj [(''error'', JStr ''Unauthorized'')]), s)
      else handler s)"

text \<open>\<^verbatim>\<open>GET /api/clients\<close>\<close>

definition get_api_clients :: "store \<Rightarrow> outcome \<times> store" where
  "get_api_clients s =
     (Response 200 (JArr (map
        (\<lambda>c. JObj (client_props c @
           [(''grants'', JArr (map (\<lambda>g. JObj (grant_props g)) (select_grants s (c_id c))))]))
        (select_clients s))), s)"

text \<open>\<^verbatim>\<open>GET /api/client/:id\<close>; \<open>publicGrants\<close> is the rest of each grant object once
  \<^verbatim>\<open>notes\<close> is taken out.\<close>

definition publicGrants :: "grant_row list \<Rightarrow> json list" where
  "publicGrants gs = map (\<lambda>g. JObj (filter (\<lambda>kv. fst kv \<noteq> ''notes'') (grant_props g))) gs"

definition get_api_client :: "string \<Rightarrow> store \<Rightarrow> outcome \<times> store" where
  "get_api_client i s =
     (case select_client s i of
        None \<Rightarrow> (Response 404 (JObj [(''error'', JStr ''Not found'')]), s)
      | Some client \<Rightarrow>
          (Response 200 (JObj (client_props client @
             [(''grants'', JArr (publicGrants (select_grants s (c_id client))))])), s))"

text \<open>\<^verbatim>\<open>POST /api/clients\<close>; destructuring a body that is null or undefined throws.\<close>

definition post_api_clients :: "env \<Rightarrow> json \<Rightarrow> store \<Rightarrow> outcome \<times> store" where
  "post_api_clients e body s =
     (let i = randomBytes_hex e 0 in
      if nullish body then (Uncaught TypeError, s)
      else case insert_client e i (client_args body) s of
             Inl err \<Rightarrow> (Uncaught err, s)
           | Inr s' \<Rightarrow> (Response 200 (JObj [(''id'', JStr i), (''name'', field body ''name'')]), s'))"

text \<open>\<^verbatim>\<open>PUT /api/clients/:id\<close>\<close>

definition put_api_clients_id :: "env \<Rightarrow> string \<Rightarrow> json \<Rightarrow> store \<Rightarrow> outcome \<times> store" where
  "put_api_clients_id e i body s =
     (if nullish body then (Uncaught TypeError, s)
      else case update_client e (client_args body) i s of
             Inl err \<Rightarrow> (Uncaught err, s)
           | Inr s' \<Rightarrow> (Response 200 ok, s'))"

text \<open>\<^verbatim>\<open>DELETE /api/clients/:id\<close>\<close>

definition delete_api_clients_id :: "string \<Rightarrow> store \<Rightarrow> outcome \<times> store" where
  "delete_api_clients_id i s = (Response 200 ok, delete_client i s)"

text \<open>\<^verbatim>\<open>POST /api/clients/:clientId/grants\<close>\<close>

definition post_api_clients_grants :: "env \<Rightarrow> string \<Rightarrow> json \<Rightarrow> store \<Rightarrow> outcome \<times> store" where
  "post_api_clients_grants e clientId body s =
     (let i = randomBytes_hex e 0 in
      if nullish body then (Uncaught TypeError, s)
      else case insert_grant e i clientId (grant_args body) 0 s of
             Inl err \<Rightarrow> (Uncaught err, s)
           | Inr s' \<Rightarrow> (Response 200 (JObj [(''id'', JStr i)]), s'))"

text \<open>\<^verbatim>\<open>PUT /api/grants/:id\<close>\<close>

definition put_api_grants_id :: "env \<Rightarrow> string \<Rightarrow> json \<Rightarrow> store \<Rightarrow> outcome \<times> store" where
  "put_api_grants_id e i body s =
     (if nullish body then (Uncaught TypeError, s)
      else case update_grant e (grant_args body) i s of
             Inl err \<Rightarrow> (Uncaught err, s)
           | Inr s' \<Rightarrow> (Response 200 ok, s'))"

text \<open>\<^verbatim>\<open>DELETE /api/grants/:id\<close>\<close>

definition delete_api_grants_id :: "string \<Rightarrow> store \<Rightarrow> outcome \<times> store" where
  "delete_api_grants_id i s = (Response 200 ok, delete_grant i s)"

text \<open>
  \<^verbatim>\<open>PUT /api/clients/:clientId/grants\<close>. \<open>forEach_insert\<close> is the \<^verbatim>\<open>grants.forEach\<close>
  loop from position \<open>i\<close> on: the callback draws an identifier, reads the properties of
  \<open>g\<close> (which throws when \<open>g\<close> is null) and runs the insert with \<open>i\<close> as
  \<^verbatim>\<open>sort_order\<close>. An exception ends the loop, with the rows inserted so far in place.
  Only an array has \<^verbatim>\<open>forEach\<close>; on anything else the call throws, after the delete.
\<close>

fun forEach_insert :: "env \<Rightarrow> string \<Rightarrow> nat \<Rightarrow> json list \<Rightarrow> store \<Rightarrow> error option \<times> store" where
  "forEach_insert e clientId i [] s = (None, s)"
| "forEach_insert e clientId i (g # gs) s =
     (if nullish g then (Some TypeError, s)
      else case insert_grant e (randomBytes_hex e i) clientId (grant_args g) (int i) s of
             Inl err \<Rightarrow> (Some err, s)
           | Inr s' \<Rightarrow> forEach_insert e clientId (Suc i) gs s')"

definition put_api_clients_grants :: "env \<Rightarrow> string \<Rightarrow> json \<Rightarrow> store \<Rightarrow> outcome \<times> store" where
  "put_api_clients_grants e clientId body s =
     (if nullish body then (Uncaught TypeError, s)
      else let s1 = delete_grants_of clientId s in
        case field body ''grants'' of
          JArr gs \<Rightarrow>
            (case forEach_insert e clientId 0 gs s1 of
               (Some err, s2) \<Rightarrow> (Uncaught err, s2)
             | (None, s2) \<Rightarrow> (Response 200 ok, s2))
        | _ \<Rightarrow> (Uncaught TypeError, s1))"

subsection \<open>Routing\<close>

text \<open>The routes that reach the store, with their path parameters and body. A request
  carries the value of its \<^verbatim>\<open>x-admin-key\<close> header, if it has one. The body of a route
  is a parsed value: \<open>handle\<close> is what runs once \<^verbatim>\<open>express.json()\<close> has passed the
  request on, and \<open>app\<close> below puts the parser in front of it. The two routes that send
  a page do not touch the store and are left out.\<close>

datatype route =
    GET_api_clients
  | GET_api_client string
  | POST_api_clients json
  | PUT_api_clients_id string json
  | DELETE_api_clients_id string
  | POST_api_clients_grants string json
  | PUT_api_grants_id string json
  | DELETE_api_grants_id string
  | PUT_api_clients_grants string json

fun handle :: "env \<Rightarrow> string option \<Rightarrow> route \<Rightarrow> store \<Rightarrow> outcome \<times> store" where
  "handle e auth GET_api_clients s = requireAdmin e auth get_api_clients s"
| "handle e auth (GET_api_client i) s = get_api_client i s"
| "handle e auth (POST_api_clients body) s = requireAdmin e auth (post_api_clients e body) s"
| "handle e auth (PUT_api_clients_id i body) s =
     requireAdmin e auth (put_api_clients_id e i body) s"
| "handle e auth (DELETE_api_clients_id i) s = requireAdmin e auth (delete_api_clients_id i) s"
| "handle e auth (POST_api_clients_grants clientId body) s =
     requireAdmin e auth (post_api_clients_grants e clientId body) s"
| "handle e auth (PUT_api_grants_id i body) s =
     requireAdmin e auth (put_api_grants_id e i body) s"
| "handle e auth (DELETE_api_grants_id i) s = requireAdmin e auth (delete_api_grants_id i) s"
| "handle e auth (PUT_api_clients_grants clientId body) s =
     requireAdmin e auth (put_api_clients_grants e clientId body) s"

subsection \<open>The body parser in front of the routes\<close>

text \<open>
  \<^verbatim>\<open>app.use(express.json())\<close> is mounted before every route, and \<open>requireAdmin\<close> is
  part of a route. So each request first meets the parser: a JSON body that does not
  parse ends the request there with the parser's error, before any route and so
  before the admin check; otherwise the route runs with the parsed value as
  \<^verbatim>\<open>req.body\<close> (for a request without a JSON body that value is an empty object or
  undefined, by the version of express). The parser's other refusals (a body over the
  size limit and the like) end the request in the same place with another status and
  are not modelled. An operation is a method and path with its path parameter; with
  the parsed body it makes the route.
\<close>

datatype payload = Malformed | Parsed json

datatype operation =
    List_clients
  | Get_client string
  | Create_client
  | Update_client string
  | Delete_client string
  | Create_grant string
  | Update_grant string
  | Delete_grant string
  | Replace_grants string

fun route_of :: "operation \<Rightarrow> json \<Rightarrow> route" where
  "route_of List_clients body = GET_api_clients"
| "route_of (Get_client i) body = GET_api_client i"
| "route_of Create_client body = POST_api_clients body"
| "route_of (Update_client i) body = PUT_api_clients_id i body"
| "route_of (Delete_client i) body = DELETE_api_clients_id i"
| "route_of (Create_grant clientId) body = POST_api_clients_grants clientId body"
| "route_of (Update_grant i) body = PUT_api_grants_id i body"
| "route_of (Delete_grant i) body = DELETE_api_grants_id i"
| "route_of (Replace_grants clientId) body = PUT_api_clients_grants clientId body"

fun app :: "env \<Rightarrow> string option \<Rightarrow> operation \<Rightarrow> payload \<Rightarrow> store \<Rightarrow> outcome \<times> store" where
  "app e auth op Malformed s = (Uncaught EntityParseFailed, s)"
| "app e auth op (Parsed body) s = handle e auth (route_of op body) s"

text \<open>The stores the server can be in: it starts on empty tables and serves requests,
  each with its own header, clock and random identifiers.\<close>

inductive reachable :: "store \<Rightarrow> bool" where
  start: "reachable empty_store"
| request: "reachable s \<Longrightarrow> handle e auth r s = (out, s') \<Longrightarrow> reachable s'"

section \<open>Vocabulary of the properties\<close>

text \<open>The routes registered with \<open>requireAdmin\<close>: all but the public read.\<close>

fun protected :: "route \<Rightarrow> bool" where
  "protected (GET_api_client i) = False"
| "protected r = True"

text \<open>The operations whose route is registered with \<open>requireAdmin\<close>.\<close>

fun requires_admin :: "operation \<Rightarrow> bool" where
  "requires_admin (Get_client i) = False"
| "requires_admin op = True"

text \<open>Every grant names a client that is in the store; the rowids of the grants table
  ascend along it.\<close>

definition referential :: "store \<Rightarrow> bool" where
  "referential s = (\<forall>g\<in>set (grants s). g_client_id g \<in> set (map c_id (clients s)))"

definition rowids_ascending :: "store \<Rightarrow> bool" where
  "rowids_ascending s = sorted_wrt (<) (map g_rowid (grants s))"

text \<open>
  Request bodies as the front end sends them: a text field holds a string, or is absent,
  null or otherwise falsy; \<^verbatim>\<open>match_pct\<close> holds a number or is falsy; a client's
  \<^verbatim>\<open>name\<close> is a string.
\<close>

fun text_or_falsy :: "json \<Rightarrow> bool" where
  "text_or_falsy (JStr t) = True"
| "text_or_falsy v = (\<not> truthy v)"

fun number_or_falsy :: "json \<Rightarrow> bool" where
  "number_or_falsy (JNum n) = True"
| "number_or_falsy v = (\<not> truthy v)"

fun is_string :: "json \<Rightarrow> bool" where
  "is_string (JStr t) = True"
| "is_string v = False"

definition grant_fields_typed :: "json \<Rightarrow> bool" where
  "grant_fields_typed b =
     (text_or_falsy (field b ''name'') \<and> text_or_falsy (field b ''org'') \<and>
      text_or_falsy (field b ''cat'') \<and> text_or_falsy (field b ''amount'') \<and>
      text_or_falsy (field b ''cover'') \<and> text_or_falsy (field b ''deadline'') \<and>
      text_or_falsy (field b ''status'') \<and> number_or_falsy (field b ''match_pct'') \<and>
      text_or_falsy (field b ''notes''))"

definition client_fields_typed :: "json \<Rightarrow> bool" where
  "client_fields_typed b =
     (is_string (field b ''name'') \<and> text_or_falsy (field b ''contact'') \<and>
      text_or_falsy (field b ''sector'') \<and> text_or_falsy (field b ''email'') \<and>
      text_or_falsy (field b ''phone'') \<and> text_or_falsy (field b ''message'') \<and>
      text_or_falsy (field b ''presenter''))"

text \<open>The names of the nine grant columns and of the seven client columns that the
  statements write, in the order of their placeholders.\<close>

definition grant_columns :: "string list" where
  "grant_columns = [''name'', ''org'', ''cat'', ''amount'', ''cover'', ''deadline'', ''status'',
     ''match_pct'', ''notes'']"

definition client_columns :: "string list" where
  "client_columns = [''name'', ''contact'', ''sector'', ''email'', ''phone'', ''message'',
     ''presenter'']"

text \<open>The field-default policy as the specification words it: the value stored for a
  column whose submitted value is falsy.\<close>

definition grant_default :: "string \<Rightarrow> json" where
  "grant_default k =
     (if k = ''status'' then JStr ''open'' else if k = ''match_pct'' then JNum 70 else JStr '''')"

definition client_default :: "string \<Rightarrow> json" where
  "client_default k = (if k = ''presenter'' then JStr DEFAULT_PRESENTER else JStr '''')"

section \<open>Example data\<close>

text \<open>An environment with the default admin password, and a store with two clients:
  the first got two grants by a bulk replace and a third by a single create, the
  second one grant by a single create.\<close>

definition example_env :: "string \<Rightarrow> string list \<Rightarrow> env" where
  "example_env now ids = \<lparr>ADMIN_PASSWORD = None, datetime_now = now,
     randomBytes_hex = (\<lambda>i. if i < length ids then ids ! i else ''ffffffffffffffff''),
     text_of_number = (\<lambda>n. ''''), integer_of_text = TEXT\<rparr>"

definition example_client :: client_row where
  "example_client = \<lparr>c_id = ''00000000000000a0'', c_name = TEXT ''Acme'', c_contact = TEXT '''',
     c_sector = TEXT ''Tech'', c_email = TEXT '''', c_phone = TEXT '''', c_message = TEXT '''',
     c_presenter = TEXT DEFAULT_PRESENTER, c_created_at = ''2024-04-30 09:00:00'',
     c_updated_at = ''2024-04-30 09:00:00''\<rparr>"

definition example_client2 :: client_row where
  "example_client2 = \<lparr>c_id = ''00000000000000a1'', c_name = TEXT ''Beta'', c_contact = TEXT ''Dana'',
     c_sector = TEXT '''', c_email = TEXT '''', c_phone = TEXT '''', c_message = TEXT '''',
     c_presenter = TEXT ''Team'', c_created_at = ''2024-04-30 11:30:00'',
     c_updated_at = ''2024-04-30 11:30:00''\<rparr>"

definition example_grant :: grant_row where
  "example_grant = \<lparr>g_rowid = 1, g_id = ''00000000000000b0'', g_client_id = ''00000000000000a0'',
     g_name = TEXT ''Seed fund'', g_org = TEXT ''Ministry'', g_cat = TEXT '''', g_amount = TEXT ''50k'',
     g_cover = TEXT '''', g_deadline = TEXT ''2024-12-31'', g_status = TEXT ''open'',
     g_match_pct = INTEGER 85, g_notes = TEXT ''call back'', g_sort_order = 0\<rparr>"

definition example_grant2 :: grant_row where
  "example_grant2 = \<lparr>g_rowid = 2, g_id = ''00000000000000b1'', g_client_id = ''00000000000000a0'',
     g_name = TEXT ''Export aid'', g_org = TEXT '''', g_cat = TEXT '''', g_amount = TEXT '''',
     g_cover = TEXT '''', g_deadline = TEXT '''', g_status = TEXT ''closed'',
     g_match_pct = INTEGER 70, g_notes = TEXT '''', g_sort_order = 1\<rparr>"

definition example_grant3 :: grant_row where
  "example_grant3 = \<lparr>g_rowid = 3, g_id = ''00000000000000b2'', g_client_id = ''00000000000000a1'',
     g_name = TEXT ''Green loan'', g_org = TEXT '''', g_cat = TEXT '''', g_amount = TEXT '''',
     g_cover = TEXT '''', g_deadline = TEXT '''', g_status = TEXT ''open'',
     g_match_pct = INTEGER 70, g_notes = TEXT ''internal'', g_sort_order = 0\<rparr>"

definition example_grant4 :: grant_row where
  "example_grant4 = \<lparr>g_rowid = 4, g_id = ''00000000000000b3'', g_client_id = ''00000000000000a0'',
     g_name = TEXT ''Late entry'', g_org = TEXT '''', g_cat = TEXT '''', g_amount = TEXT '''',
     g_cover = TEXT '''', g_deadline = TEXT '''', g_status = TEXT ''open'',
     g_match_pct = INTEGER 70, g_notes = TEXT '''', g_sort_order = 0\<rparr>"

definition example_store :: store where
  "example_store = \<lparr>clients = [example_client, example_client2],
     grants = [example_grant, example_grant2, example_grant3, example_grant4]\<rparr>"

section \<open>Evaluation\<close>

text \<open>The definitions that evaluating a request on concrete data unfolds.\<close>

lemmas example_defs =
  example_env_def example_client_def example_client2_def example_grant_def example_grant2_def
  example_grant3_def example_grant4_def example_store_def empty_store_def

lemmas handler_defs =
  Let_def requireAdmin_def ADMIN_PASS_def ok_def or_else_def client_args_def grant_args_def
  client_props_def grant_props_def publicGrants_def
  get_api_clients_def get_api_client_def post_api_clients_def put_api_clients_id_def
  delete_api_clients_id_def post_api_clients_grants_def put_api_grants_id_def
  delete_api_grants_id_def put_api_clients_grants_def

lemmas statement_defs =
  bind_params_def next_rowid_def select_clients_def select_client_def select_grants_def
  set_client_columns_def insert_client_def update_client_def delete_client_def
  set_grant_columns_def insert_grant_def update_grant_def delete_grant_def delete_grants_of_def

section \<open>The example store is one the server can reach\<close>

lemma example_step1:
  "handle (example_env ''2024-04-30 09:00:00'' [''00000000000000a0'']) (Some ''grants2024'')
     (POST_api_clients (JObj [(''name'', JStr ''Acme''), (''sector'', JStr ''Tech'')])) empty_store
   = (Response 200 (JObj [(''id'', JStr ''00000000000000a0''), (''name'', JStr ''Acme'')]),
      \<lparr>clients = [example_client], grants = []\<rparr>)"
  by (simp add: example_defs handler_defs statement_defs)

lemma example_step2:
  "handle (example_env ''2024-04-30 11:30:00'' [''00000000000000a1'']) (Some ''grants2024'')
     (POST_api_clients (JObj [(''name'', JStr ''Beta''), (''contact'', JStr ''Dana''),
        (''presenter'', JStr ''Team'')])) \<lparr>clients = [example_client], grants = []\<rparr>
   = (Response 200 (JObj [(''id'', JStr ''00000000000000a1''), (''name'', JStr ''Beta'')]),
      \<lparr>clients = [example_client, example_client2], grants = []\<rparr>)"
  by (simp add: example_defs handler_defs statement_defs)

lemma example_step3:
  "handle (example_env ''2024-04-30 11:31:00'' [''00000000000000b0'', ''00000000000000b1''])
     (Some ''grants2024'')
     (PUT_api_clients_grants ''00000000000000a0'' (JObj [(''grants'', JArr
        [JObj [(''name'', JStr ''Seed fund''), (''org'', JStr ''Ministry''),
               (''amount'', JStr ''50k''), (''deadline'', JStr ''2024-12-31''),
               (''match_pct'', JNum 85), (''notes'', JStr ''call back'')],
         JObj [(''name'', JStr ''Export aid''), (''status'', JStr ''closed'')]])]))
     \<lparr>clients = [example_client, example_client2], grants = []\<rparr>
   = (Response 200 ok,
      \<lparr>clients = [example_client, example_client2], grants = [example_grant, example_grant2]\<rparr>)"
  by (simp add: example_defs handler_defs statement_defs)

lemma example_step4:
  "handle (example_env ''2024-04-30 11:32:00'' [''00000000000000b2'']) (Some ''grants2024'')
     (POST_api_clients_grants ''00000000000000a1''
        (JObj [(''name'', JStr ''Green loan''), (''notes'', JStr ''internal'')]))
     \<lparr>clients = [example_client, example_client2], grants = [example_grant, example_grant2]\<rparr>
   = (Response 200 (JObj [(''id'', JStr ''00000000000000b2'')]),
      \<lparr>clients = [example_client, example_client2],
       grants = [example_grant, example_grant2, example_grant3]\<rparr>)"
  by (simp add: example_defs handler_defs statement_defs)

lemma example_step5:
  "handle (example_env ''2024-04-30 11:33:00'' [''00000000000000b3'']) (Some ''grants2024'')
     (POST_api_clients_grants ''00000000000000a0'' (JObj [(''name'', JStr ''Late entry'')]))
     \<lparr>clients = [example_client, example_client2],
      grants = [example_grant, example_grant2, example_grant3]\<rparr>
   = (Response 200 (JObj [(''id'', JStr ''00000000000000b3'')]), example_store)"
  by (simp add: example_defs handler_defs statement_defs)

lemma example_store_reachable: "reachable example_store"
  by (rule reachable.request [OF reachable.request [OF reachable.request [OF reachable.request
        [OF reachable.request [OF reachable.start example_step1] example_step2] example_step3]
        example_step4] example_step5])

section \<open>Authorization\<close>

lemma requireAdmin_refuses:
  assumes "protected r" and "auth \<noteq> Some (ADMIN_PASS e)"
  shows "handle e auth r s = (Response 401 (JObj [(''error'', JStr ''Unauthorized'')]), s)"
  using assms by (cases r) (simp_all add: requireAdmin_def)

lemma protected_route_of: "protected (route_of op body) = requires_admin op"
  by (cases op) simp_all

lemma route_is_route_of: "\<exists>op body. r = route_of op body"
proof (cases r)
  case GET_api_clients
  then have "r = route_of List_clients JUndefined" by simp
  then show ?thesis by blast
next
  case (GET_api_client i)
  then have "r = route_of (Get_client i) JUndefined" by simp
  then show ?thesis by blast
next
  case (POST_api_clients body)
  then have "r = route_of Create_client body" by simp
  then show ?thesis by blast
next
  case (PUT_api_clients_id i body)
  then have "r = route_of (Update_client i) body" by simp
  then show ?thesis by blast
next
  case (DELETE_api_clients_id i)
  then have "r = route_of (Delete_client i) JUndefined" by simp
  then show ?thesis by blast
next
  case (POST_api_clients_grants clientId body)
  then have "r = route_of (Create_grant clientId) body" by simp
  then show ?thesis by blast
next
  case (PUT_api_grants_id i body)
  then have "r = route_of (Update_grant i) body" by simp
  then show ?thesis by blast
next
  case (DELETE_api_grants_id i)
  then have "r = route_of (Delete_grant i) JUndefined" by simp
  then show ?thesis by blast
next
  case (PUT_api_clients_grants clientId body)
  then have "r = route_of (Replace_grants clientId) body" by simp
  then show ?thesis by blast
qed

text \<open>The parser changes no store, so the stores that \<open>app\<close> reaches are stores that
  \<open>handle\<close> reaches.\<close>

lemma app_reachable: "reachable s \<Longrightarrow> reachable (snd (app e auth op p s))"
proof (cases p)
  case Malformed
  assume "reachable s"
  with Malformed show ?thesis by simp
next
  case (Parsed body)
  assume r: "reachable s"
  obtain out s' where h: "handle e auth (route_of op body) s = (out, s')"
    by (cases "handle e auth (route_of op body) s")
  from r h have "reachable s'" by (rule reachable.request)
  with Parsed h show ?thesis by simp
qed

text \<open>
  C3 does not hold: the body parser runs before the admin check. A create-client
  request with no admin header and a JSON body that does not parse is answered by the
  parser's error, status 400, not by 401 with \<^verbatim>\<open>{error: "Unauthorized"}\<close>; the store is
  unchanged.
\<close>

theorem unauthorized_malformed_body_is_400_counterexample:
  "requires_admin Create_client \<and>
   None \<noteq> Some (ADMIN_PASS (example_env ''2024-05-01 10:00:00'' [])) \<and>
   app (example_env ''2024-05-01 10:00:00'' []) None Create_client Malformed example_store =
     (Uncaught EntityParseFailed, example_store) \<and>
   status_code (fst (app (example_env ''2024-05-01 10:00:00'' []) None Create_client Malformed
     example_store)) = 400 \<and>
   fst (app (example_env ''2024-05-01 10:00:00'' []) None Create_client Malformed example_store)
     \<noteq> Response 401 (JObj [(''error'', JStr ''Unauthorized'')])"
  by simp

text \<open>
  C3, amended. On every protected operation (list clients; create, update, delete
  client; create, update, delete grant; bulk replace), a request whose admin header is
  absent or is not the configured secret leaves the store exactly as it was; if its
  body passes the JSON body parser, whatever the parsed value, it is answered 401 with
  the body \<^verbatim>\<open>{error: "Unauthorized"}\<close>; if its body does not parse, it is answered by
  the parser's error, status 400.
\<close>

theorem unauthorized_never_mutates_and_is_401_after_the_parser:
  assumes "requires_admin op" and "auth \<noteq> Some (ADMIN_PASS e)"
  shows "snd (app e auth op p s) = s \<and>
    (\<forall>body. app e auth op (Parsed body) s =
       (Response 401 (JObj [(''error'', JStr ''Unauthorized'')]), s)) \<and>
    app e auth op Malformed s = (Uncaught EntityParseFailed, s) \<and>
    status_code (fst (app e auth op Malformed s)) = 400"
proof -
  have parsed: "app e auth op (Parsed body) s =
      (Response 401 (JObj [(''error'', JStr ''Unauthorized'')]), s)" for body
  proof -
    from assms(1) have "protected (route_of op body)" by (simp only: protected_route_of)
    from requireAdmin_refuses [OF this assms(2)] show ?thesis by simp
  qed
  have "snd (app e auth op p s) = s"
  proof (cases p)
    case Malformed
    then show ?thesis by simp
  next
    case (Parsed body)
    with parsed [of body] show ?thesis by simp
  qed
  with parsed show ?thesis by simp
qed

theorem unauthorized_never_mutates_and_is_401_after_the_parser_witness:
  "requires_admin (Delete_client ''00000000000000a0'') \<and>
   Some ''guess'' \<noteq> Some (ADMIN_PASS (example_env ''2024-05-01 10:00:00'' [])) \<and>
   app (example_env ''2024-05-01 10:00:00'' []) (Some ''guess'')
       (Delete_client ''00000000000000a0'') (Parsed (JObj [])) example_store
     = (Response 401 (JObj [(''error'', JStr ''Unauthorized'')]), example_store) \<and>
   requires_admin (Replace_grants ''00000000000000a0'') \<and>
   None \<noteq> Some (ADMIN_PASS (example_env ''2024-05-01 10:00:00'' [])) \<and>
   app (example_env ''2024-05-01 10:00:00'' []) None
       (Replace_grants ''00000000000000a0'') (Parsed (JObj [(''grants'', JArr [])])) example_store
     = (Response 401 (JObj [(''error'', JStr ''Unauthorized'')]), example_store) \<and>
   app (example_env ''2024-05-01 10:00:00'' []) None
       (Replace_grants ''00000000000000a0'') Malformed example_store
     = (Uncaught EntityParseFailed, example_store)"
proof -
  let ?e = "example_env ''2024-05-01 10:00:00'' []"
  have key: "ADMIN_PASS ?e = ''grants2024''" by (simp add: ADMIN_PASS_def example_env_def)
  have 1: "requires_admin (Delete_client ''00000000000000a0'')" by simp
  have 2: "Some ''guess'' \<noteq> Some (ADMIN_PASS ?e)" by (simp add: key)
  have 3: "requires_admin (Replace_grants ''00000000000000a0'')" by simp
  have 4: "None \<noteq> Some (ADMIN_PASS ?e)" by simp
  note a = unauthorized_never_mutates_and_is_401_after_the_parser [OF 1 2, of Malformed example_store]
  note b = unauthorized_never_mutates_and_is_401_after_the_parser [OF 3 4, of Malformed example_store]
  from a have a1: "app ?e (Some ''guess'') (Delete_client ''00000000000000a0'') (Parsed (JObj []))
      example_store = (Response 401 (JObj [(''error'', JStr ''Unauthorized'')]), example_store)"
    by blast
  from b have b1: "app ?e None (Replace_grants ''00000000000000a0'')
      (Parsed (JObj [(''grants'', JArr [])])) example_store =
      (Response 401 (JObj [(''error'', JStr ''Unauthorized'')]), example_store)"
    and b2: "app ?e None (Replace_grants ''00000000000000a0'') Malformed example_store =
      (Uncaught EntityParseFailed, example_store)"
    by blast+
  show ?thesis by (intro conjI) (fact 1 2 a1 3 4 b1 b2)+
qed

section \<open>Facts about the statements\<close>

lemma map_of_filter_key:
  "k \<noteq> k' \<Longrightarrow> map_of (filter (\<lambda>kv. fst kv \<noteq> k') kvs) k = map_of kvs k"
  by (induction kvs) auto

lemma select_client_None: "i \<notin> set (map c_id (clients s)) \<Longrightarrow> select_client s i = None"
  by (auto simp: select_client_def find_None_iff)

lemma select_client_Some:
  "i \<in> set (map c_id (clients s)) \<Longrightarrow>
     \<exists>c. select_client s i = Some c \<and> c \<in> set (clients s) \<and> c_id c = i"
  by (cases "select_client s i") (auto simp: select_client_def find_None_iff find_Some_iff)

lemma set_grant_columns_keeps [simp]:
  "g_rowid (set_grant_columns e cs g) = g_rowid g"
  "g_id (set_grant_columns e cs g) = g_id g"
  "g_client_id (set_grant_columns e cs g) = g_client_id g"
  "g_sort_order (set_grant_columns e cs g) = g_sort_order g"
  by (simp_all add: set_grant_columns_def)

lemma set_client_columns_keeps [simp]:
  "c_id (set_client_columns e cs c) = c_id c"
  "c_created_at (set_client_columns e cs c) = c_created_at c"
  "c_updated_at (set_client_columns e cs c) = c_updated_at c"
  by (simp_all add: set_client_columns_def)

lemma insert_grant_Inr:
  assumes "insert_grant e i cid args so s = Inr s'"
  shows "\<exists>g. s' = s\<lparr>grants := grants s @ [g]\<rparr> \<and> g_rowid g = next_rowid (grants s) \<and>
           g_id g = i \<and> g_client_id g = cid \<and> g_sort_order g = so \<and>
           i \<notin> set (map g_id (grants s)) \<and> cid \<in> set (map c_id (clients s))"
  using assms unfolding insert_grant_def
  by (auto split: sum.splits if_splits)

lemma forEach_insert_appends:
  assumes "forEach_insert e cid i gs s = (r, s')"
  shows "clients s' = clients s \<and>
         (\<exists>rows. grants s' = grants s @ rows \<and> (\<forall>g\<in>set rows. g_client_id g = cid))"
  using assms
proof (induction gs arbitrary: i s)
  case Nil
  then show ?case by simp
next
  case (Cons g gs)
  show ?case
  proof (cases "nullish g")
    case True
    with Cons.prems show ?thesis by simp
  next
    case False
    show ?thesis
    proof (cases "insert_grant e (randomBytes_hex e i) cid (grant_args g) (int i) s")
      case (Inl err)
      with False Cons.prems show ?thesis by simp
    next
      case (Inr s1)
      with False Cons.prems have rest: "forEach_insert e cid (Suc i) gs s1 = (r, s')" by simp
      from insert_grant_Inr [OF Inr] obtain row where
        row: "s1 = s\<lparr>grants := grants s @ [row]\<rparr>" "g_client_id row = cid" by blast
      from Cons.IH [OF rest] obtain rows where
        "clients s' = clients s1" "grants s' = grants s1 @ rows"
        "\<forall>g\<in>set rows. g_client_id g = cid"
        by blast
      with row have "clients s' = clients s" "grants s' = grants s @ (row # rows)"
        "\<forall>g\<in>set (row # rows). g_client_id g = cid"
        by simp_all
      then show ?thesis by blast
    qed
  qed
qed

lemma put_api_clients_grants_frame:
  "clients (snd (put_api_clients_grants e cid body s)) = clients s \<and>
   filter (\<lambda>g. g_client_id g \<noteq> cid) (grants (snd (put_api_clients_grants e cid body s))) =
     filter (\<lambda>g. g_client_id g \<noteq> cid) (grants s)"
proof (cases "nullish body")
  case True
  then show ?thesis by (simp add: put_api_clients_grants_def)
next
  case False
  let ?s1 = "delete_grants_of cid s"
  have s1: "clients ?s1 = clients s"
    "filter (\<lambda>g. g_client_id g \<noteq> cid) (grants ?s1) = filter (\<lambda>g. g_client_id g \<noteq> cid) (grants s)"
    by (simp_all add: delete_grants_of_def)
  show ?thesis
  proof (cases "field body ''grants''")
    case (JArr gs)
    obtain r s2 where run: "forEach_insert e cid 0 gs ?s1 = (r, s2)"
      by (cases "forEach_insert e cid 0 gs ?s1")
    from forEach_insert_appends [OF run] obtain rows where
      "clients s2 = clients ?s1" "grants s2 = grants ?s1 @ rows"
      "\<forall>g\<in>set rows. g_client_id g = cid"
      by blast
    then have "clients s2 = clients s"
      "filter (\<lambda>g. g_client_id g \<noteq> cid) (grants s2) = filter (\<lambda>g. g_client_id g \<noteq> cid) (grants s)"
      using s1 by (simp_all add: filter_empty_conv [THEN iffD2])
    moreover have "snd (put_api_clients_grants e cid body s) = s2"
      using False JArr run by (cases r) (simp_all add: put_api_clients_grants_def)
    ultimately show ?thesis by simp
  qed (use False s1 in \<open>simp_all add: put_api_clients_grants_def\<close>)
qed

section \<open>The public read\<close>

text \<open>
  C4. The public read \<^verbatim>\<open>GET /api/client/:id\<close> of an id that is in the store answers with
  that client and a \<^verbatim>\<open>grants\<close> array, one object per grant of the client as the ordered
  select returns them; no object has a \<^verbatim>\<open>notes\<close> property, and every other property
  has the value it has in the grant's row. For an id that is not in the store the answer
  is 404 with an error body.
\<close>

theorem public_read_omits_notes:
  "(i \<notin> set (map c_id (clients s)) \<longrightarrow>
      get_api_client i s = (Response 404 (JObj [(''error'', JStr ''Not found'')]), s)) \<and>
   (i \<in> set (map c_id (clients s)) \<longrightarrow>
      (\<exists>c pub. c \<in> set (clients s) \<and> c_id c = i \<and>
         get_api_client i s =
           (Response 200 (JObj (client_props c @ [(''grants'', JArr pub)])), s) \<and>
         length pub = length (select_grants s i) \<and>
         (\<forall>n<length pub. \<exists>kvs. pub ! n = JObj kvs \<and>
            ''notes'' \<notin> fst ` set kvs \<and>
            (\<forall>k. k \<noteq> ''notes'' \<longrightarrow>
               map_of kvs k = map_of (grant_props (select_grants s i ! n)) k))))"
proof (intro conjI impI)
  assume "i \<notin> set (map c_id (clients s))"
  then show "get_api_client i s = (Response 404 (JObj [(''error'', JStr ''Not found'')]), s)"
    by (simp add: get_api_client_def select_client_None)
next
  assume "i \<in> set (map c_id (clients s))"
  then obtain c where c: "select_client s i = Some c" "c \<in> set (clients s)" "c_id c = i"
    using select_client_Some by blast
  let ?pub = "publicGrants (select_grants s i)"
  have "get_api_client i s = (Response 200 (JObj (client_props c @ [(''grants'', JArr ?pub)])), s)"
    using c by (simp add: get_api_client_def)
  moreover have "length ?pub = length (select_grants s i)"
    by (simp add: publicGrants_def)
  moreover have "\<forall>n<length ?pub. \<exists>kvs. ?pub ! n = JObj kvs \<and> ''notes'' \<notin> fst ` set kvs \<and>
       (\<forall>k. k \<noteq> ''notes'' \<longrightarrow> map_of kvs k = map_of (grant_props (select_grants s i ! n)) k)"
    by (auto simp: publicGrants_def map_of_filter_key)
  ultimately show "\<exists>c pub. c \<in> set (clients s) \<and> c_id c = i \<and>
         get_api_client i s =
           (Response 200 (JObj (client_props c @ [(''grants'', JArr pub)])), s) \<and>
         length pub = length (select_grants s i) \<and>
         (\<forall>n<length pub. \<exists>kvs. pub ! n = JObj kvs \<and>
            ''notes'' \<notin> fst ` set kvs \<and>
            (\<forall>k. k \<noteq> ''notes'' \<longrightarrow>
               map_of kvs k = map_of (grant_props (select_grants s i ! n)) k))"
    using c by blast
qed

theorem public_read_omits_notes_witness:
  "''00000000000000a1'' \<in> set (map c_id (clients example_store)) \<and>
   get_api_client ''00000000000000a1'' example_store =
     (Response 200 (JObj (client_props example_client2 @ [(''grants'', JArr
        [JObj [(''id'', JStr ''00000000000000b2''), (''client_id'', JStr ''00000000000000a1''),
               (''name'', JStr ''Green loan''), (''org'', JStr ''''), (''cat'', JStr ''''),
               (''amount'', JStr ''''), (''cover'', JStr ''''), (''deadline'', JStr ''''),
               (''status'', JStr ''open''), (''match_pct'', JNum 70),
               (''sort_order'', JNum 0)]])])), example_store) \<and>
   ''00000000000000a7'' \<notin> set (map c_id (clients example_store)) \<and>
   get_api_client ''00000000000000a7'' example_store =
     (Response 404 (JObj [(''error'', JStr ''Not found'')]), example_store)"
  using public_read_omits_notes [of "''00000000000000a1''" example_store]
    public_read_omits_notes [of "''00000000000000a7''" example_store]
  by (simp add: example_defs handler_defs statement_defs)

section \<open>What a bulk replace leaves alone\<close>

text \<open>
  C10. Whatever its outcome, a bulk replace for client \<open>cid\<close> leaves the clients table as
  it was (the client's own row and timestamps included) and leaves every grant row of
  every other client as it was, in place. With an empty list and the admin key it
  answers ok and the store is the old one without the grants of \<open>cid\<close>, of which the
  read then finds none.
\<close>

theorem bulk_replace_touches_only_own_grants:
  "clients (snd (handle e auth (PUT_api_clients_grants cid body) s)) = clients s \<and>
   filter (\<lambda>g. g_client_id g \<noteq> cid)
       (grants (snd (handle e auth (PUT_api_clients_grants cid body) s))) =
     filter (\<lambda>g. g_client_id g \<noteq> cid) (grants s) \<and>
   (field body ''grants'' = JArr [] \<longrightarrow>
      handle e (Some (ADMIN_PASS e)) (PUT_api_clients_grants cid body) s =
        (Response 200 ok, s\<lparr>grants := filter (\<lambda>g. g_client_id g \<noteq> cid) (grants s)\<rparr>) \<and>
      select_grants (s\<lparr>grants := filter (\<lambda>g. g_client_id g \<noteq> cid) (grants s)\<rparr>) cid = [])"
proof (intro conjI impI)
  show "clients (snd (handle e auth (PUT_api_clients_grants cid body) s)) = clients s"
    using put_api_clients_grants_frame [of e cid body s] by (simp add: requireAdmin_def)
  show "filter (\<lambda>g. g_client_id g \<noteq> cid)
       (grants (snd (handle e auth (PUT_api_clients_grants cid body) s))) =
     filter (\<lambda>g. g_client_id g \<noteq> cid) (grants s)"
    using put_api_clients_grants_frame [of e cid body s] by (simp add: requireAdmin_def)
next
  assume empty: "field body ''grants'' = JArr []"
  then have "\<not> nullish body" by (cases body) simp_all
  with empty show "handle e (Some (ADMIN_PASS e)) (PUT_api_clients_grants cid body) s =
        (Response 200 ok, s\<lparr>grants := filter (\<lambda>g. g_client_id g \<noteq> cid) (grants s)\<rparr>)"
    by (simp add: requireAdmin_def put_api_clients_grants_def delete_grants_of_def)
  show "select_grants (s\<lparr>grants := filter (\<lambda>g. g_client_id g \<noteq> cid) (grants s)\<rparr>) cid = []"
    by (simp add: select_grants_def filter_empty_conv [THEN iffD2])
qed

theorem bulk_replace_touches_only_own_grants_witness:
  "field (JObj [(''grants'', JArr [])]) ''grants'' = JArr [] \<and>
   handle (example_env ''2024-05-01 10:00:00'' []) (Some ''grants2024'')
       (PUT_api_clients_grants ''00000000000000a0'' (JObj [(''grants'', JArr [])])) example_store =
     (Response 200 ok, \<lparr>clients = [example_client, example_client2], grants = [example_grant3]\<rparr>) \<and>
   select_grants \<lparr>clients = [example_client, example_client2], grants = [example_grant3]\<rparr>
     ''00000000000000a0'' = []"
  using bulk_replace_touches_only_own_grants [of "example_env ''2024-05-01 10:00:00'' []"
      "Some ''grants2024''" "''00000000000000a0''" "JObj [(''grants'', JArr [])]" example_store]
  by (simp add: example_defs handler_defs statement_defs)

section \<open>Properties that every statement keeps\<close>

lemma forEach_insert_keeps:
  assumes ins: "\<And>e i cid args so s s'. P s \<Longrightarrow> insert_grant e i cid args so s = Inr s' \<Longrightarrow> P s'"
    and "P s"
  shows "P (snd (forEach_insert e cid i gs s))"
  using \<open>P s\<close>
proof (induction gs arbitrary: i s)
  case Nil
  then show ?case by simp
next
  case (Cons g gs)
  show ?case
  proof (cases "insert_grant e (randomBytes_hex e i) cid (grant_args g) (int i) s")
    case (Inl err)
    with Cons.prems show ?thesis by simp
  next
    case (Inr s1)
    with Cons.prems have "P s1" using ins by blast
    from Cons.IH [OF this] Inr Cons.prems show ?thesis by simp
  qed
qed

lemma handle_keeps:
  assumes "P s"
    and ins_c: "\<And>e i args s s'. P s \<Longrightarrow> insert_client e i args s = Inr s' \<Longrightarrow> P s'"
    and upd_c: "\<And>e i args s s'. P s \<Longrightarrow> update_client e args i s = Inr s' \<Longrightarrow> P s'"
    and del_c: "\<And>i s. P s \<Longrightarrow> P (delete_client i s)"
    and ins_g: "\<And>e i cid args so s s'. P s \<Longrightarrow> insert_grant e i cid args so s = Inr s' \<Longrightarrow> P s'"
    and upd_g: "\<And>e i args s s'. P s \<Longrightarrow> update_grant e args i s = Inr s' \<Longrightarrow> P s'"
    and del_g: "\<And>i s. P s \<Longrightarrow> P (delete_grant i s)"
    and del_gs: "\<And>cid s. P s \<Longrightarrow> P (delete_grants_of cid s)"
  shows "P (snd (handle e auth r s))"
proof (cases "auth \<noteq> Some (ADMIN_PASS e) \<and> protected r")
  case True
  then show ?thesis using \<open>P s\<close> by (cases r) (simp_all add: requireAdmin_def)
next
  case False
  show ?thesis
  proof (cases r)
    case GET_api_clients
    then show ?thesis using \<open>P s\<close> by (simp add: requireAdmin_def get_api_clients_def)
  next
    case (GET_api_client i)
    then show ?thesis using \<open>P s\<close> by (simp add: get_api_client_def split: option.splits)
  next
    case (POST_api_clients body)
    then show ?thesis using False \<open>P s\<close> ins_c
      by (auto simp: requireAdmin_def post_api_clients_def Let_def split: sum.splits)
  next
    case (PUT_api_clients_id i body)
    then show ?thesis using False \<open>P s\<close> upd_c
      by (auto simp: requireAdmin_def put_api_clients_id_def split: sum.splits)
  next
    case (DELETE_api_clients_id i)
    then show ?thesis using False \<open>P s\<close> del_c
      by (simp add: requireAdmin_def delete_api_clients_id_def)
  next
    case (POST_api_clients_grants cid body)
    then show ?thesis using False \<open>P s\<close> ins_g
      by (auto simp: requireAdmin_def post_api_clients_grants_def Let_def split: sum.splits)
  next
    case (PUT_api_grants_id i body)
    then show ?thesis using False \<open>P s\<close> upd_g
      by (auto simp: requireAdmin_def put_api_grants_id_def split: sum.splits)
  next
    case (DELETE_api_grants_id i)
    then show ?thesis using False \<open>P s\<close> del_g
      by (simp add: requireAdmin_def delete_api_grants_id_def)
  next
    case (PUT_api_clients_grants cid body)
    have s1: "P (delete_grants_of cid s)" using \<open>P s\<close> del_gs by blast
    have "P (snd (put_api_clients_grants e cid body s))"
    proof (cases "nullish body")
      case True
      then show ?thesis using \<open>P s\<close> by (simp add: put_api_clients_grants_def)
    next
      case notnull: False
      show ?thesis
      proof (cases "field body ''grants''")
        case (JArr gs)
        obtain res s2 where run: "forEach_insert e cid 0 gs (delete_grants_of cid s) = (res, s2)"
          by (cases "forEach_insert e cid 0 gs (delete_grants_of cid s)")
        have "P (snd (forEach_insert e cid 0 gs (delete_grants_of cid s)))"
          using forEach_insert_keeps [of P, OF _ s1] ins_g by blast
        with run have "P s2" by simp
        then show ?thesis using notnull JArr run
          by (cases res) (simp_all add: put_api_clients_grants_def)
      qed (use notnull s1 in \<open>simp_all add: put_api_clients_grants_def\<close>)
    qed
    then show ?thesis using PUT_api_clients_grants False by (simp add: requireAdmin_def)
  qed
qed

lemma reachable_keeps:
  assumes "reachable s" and "P empty_store"
    and ins_c: "\<And>e i args s s'. P s \<Longrightarrow> insert_client e i args s = Inr s' \<Longrightarrow> P s'"
    and upd_c: "\<And>e i args s s'. P s \<Longrightarrow> update_client e args i s = Inr s' \<Longrightarrow> P s'"
    and del_c: "\<And>i s. P s \<Longrightarrow> P (delete_client i s)"
    and ins_g: "\<And>e i cid args so s s'. P s \<Longrightarrow> insert_grant e i cid args so s = Inr s' \<Longrightarrow> P s'"
    and upd_g: "\<And>e i args s s'. P s \<Longrightarrow> update_grant e args i s = Inr s' \<Longrightarrow> P s'"
    and del_g: "\<And>i s. P s \<Longrightarrow> P (delete_grant i s)"
    and del_gs: "\<And>cid s. P s \<Longrightarrow> P (delete_grants_of cid s)"
  shows "P s"
  using \<open>reachable s\<close>
proof (induction rule: reachable.induct)
  case start
  show ?case by (rule \<open>P empty_store\<close>)
next
  case (request s e auth r out s')
  have "P (snd (handle e auth r s))"
    by (rule handle_keeps [of P, OF request.IH ins_c upd_c del_c ins_g upd_g del_g del_gs])
  with request.hyps show ?case by simp
qed

subsection \<open>Referential integrity\<close>

lemma map_if_keeps:
  "(\<And>x. f (h x) = f x) \<Longrightarrow> map f (map (\<lambda>x. if Q x then h x else x) xs) = map f xs"
  by (induction xs) auto

lemma update_client_ids:
  "update_client e args i s = Inr s' \<Longrightarrow> map c_id (clients s') = map c_id (clients s) \<and> grants s' = grants s"
  unfolding update_client_def
  by (auto split: sum.splits if_splits simp: map_if_keeps)

lemma update_grant_keys:
  "update_grant e args i s = Inr s' \<Longrightarrow>
     clients s' = clients s \<and> map g_client_id (grants s') = map g_client_id (grants s) \<and>
     map g_rowid (grants s') = map g_rowid (grants s) \<and> map g_id (grants s') = map g_id (grants s) \<and>
     map g_sort_order (grants s') = map g_sort_order (grants s)"
  unfolding update_grant_def
  by (auto split: sum.splits simp: map_if_keeps)

lemma insert_client_Inr:
  "insert_client e i args s = Inr s' \<Longrightarrow>
     \<exists>c. s' = s\<lparr>clients := clients s @ [c]\<rparr> \<and> c_id c = i \<and> i \<notin> set (map c_id (clients s)) \<and>
         c_name c \<noteq> NULL \<and> c_created_at c = datetime_now e \<and> c_updated_at c = datetime_now e"
  unfolding insert_client_def
  by (auto split: sum.splits if_splits simp: set_client_columns_def)

lemma referential_insert_client:
  "referential s \<Longrightarrow> insert_client e i args s = Inr s' \<Longrightarrow> referential s'"
  by (drule insert_client_Inr) (auto simp: referential_def)

lemma referential_update_client:
  "referential s \<Longrightarrow> update_client e args i s = Inr s' \<Longrightarrow> referential s'"
  by (drule update_client_ids) (simp add: referential_def)

lemma referential_delete_client: "referential s \<Longrightarrow> referential (delete_client i s)"
  by (auto simp: referential_def delete_client_def)

lemma referential_insert_grant:
  "referential s \<Longrightarrow> insert_grant e i cid args so s = Inr s' \<Longrightarrow> referential s'"
  by (drule insert_grant_Inr) (auto simp: referential_def)

lemma referential_iff:
  "referential s \<longleftrightarrow> set (map g_client_id (grants s)) \<subseteq> set (map c_id (clients s))"
  unfolding referential_def by auto

lemma referential_update_grant:
  "referential s \<Longrightarrow> update_grant e args i s = Inr s' \<Longrightarrow> referential s'"
  by (drule update_grant_keys) (simp only: referential_iff)

lemma referential_delete_grant: "referential s \<Longrightarrow> referential (delete_grant i s)"
  by (auto simp: referential_def delete_grant_def)

lemma referential_delete_grants_of: "referential s \<Longrightarrow> referential (delete_grants_of cid s)"
  by (auto simp: referential_def delete_grants_of_def)

lemma reachable_referential: "reachable s \<Longrightarrow> referential s"
proof (rule reachable_keeps [of s referential])
  show "referential empty_store" by (simp add: referential_def empty_store_def)
qed (blast intro: referential_insert_client referential_update_client referential_delete_client
          referential_insert_grant referential_update_grant referential_delete_grant
          referential_delete_grants_of)+

lemma handle_referential: "referential s \<Longrightarrow> referential (snd (handle e auth r s))"
  by (rule handle_keeps [of referential])
     (blast intro: referential_insert_client referential_update_client referential_delete_client
          referential_insert_grant referential_update_grant referential_delete_grant
          referential_delete_grants_of)+

subsection \<open>Rowids ascend along the table\<close>

lemma next_rowid_greater: "g \<in> set gs \<Longrightarrow> g_rowid g < next_rowid gs"
  unfolding next_rowid_def by (induction gs) (auto simp: less_Suc_eq_le max_def)

lemma ascending_insert_grant:
  "rowids_ascending s \<Longrightarrow> insert_grant e i cid args so s = Inr s' \<Longrightarrow> rowids_ascending s'"
  by (drule insert_grant_Inr) (auto simp: rowids_ascending_def sorted_wrt_append next_rowid_greater)

lemma sorted_wrt_map_filter:
  "sorted_wrt R (map f xs) \<Longrightarrow> sorted_wrt R (map f (filter Q xs))"
  by (induction xs) auto

lemma reachable_rowids_ascending: "reachable s \<Longrightarrow> rowids_ascending s"
proof (rule reachable_keeps [of s rowids_ascending])
  show "rowids_ascending empty_store" by (simp add: rowids_ascending_def empty_store_def)
next
  fix e i args s s' assume "rowids_ascending s" "insert_client e i args s = Inr s'"
  then show "rowids_ascending s'"
    by (auto dest!: insert_client_Inr simp: rowids_ascending_def)
next
  fix e i args s s' assume "rowids_ascending s" "update_client e args i s = Inr s'"
  then show "rowids_ascending s'"
    by (auto dest!: update_client_ids simp: rowids_ascending_def)
next
  fix i s assume "rowids_ascending s"
  then show "rowids_ascending (delete_client i s)"
    by (simp add: rowids_ascending_def delete_client_def sorted_wrt_map_filter)
next
  fix e i args s s' assume "rowids_ascending s" "update_grant e args i s = Inr s'"
  then show "rowids_ascending s'"
    by (auto dest!: update_grant_keys simp: rowids_ascending_def)
next
  fix i s assume "rowids_ascending s"
  then show "rowids_ascending (delete_grant i s)"
    by (simp add: rowids_ascending_def delete_grant_def sorted_wrt_map_filter)
next
  fix cid s assume "rowids_ascending s"
  then show "rowids_ascending (delete_grants_of cid s)"
    by (simp add: rowids_ascending_def delete_grants_of_def sorted_wrt_map_filter)
qed (auto intro: ascending_insert_grant)

section \<open>Referential integrity of the store\<close>

lemma set_select_grants:
  "set (select_grants s j) = {g \<in> set (grants s). g_client_id g = j}"
  by (auto simp: select_grants_def)

text \<open>
  C2. In every store the server can reach, each grant's \<^verbatim>\<open>client_id\<close> is the id of a client
  in the store, and whatever request comes next leaves it so (no operation creates a
  grant for a client that does not exist). An authorized delete of client \<open>i\<close> answers
  ok; afterwards the client is gone, no grant row has \<open>client_id = i\<close>, the public read
  of \<open>i\<close> is a 404, and no select of a client's grants (the one both reads use) returns
  a grant with \<open>client_id = i\<close>.
\<close>

theorem grants_always_reference_a_client:
  assumes "reachable s"
  shows "(\<forall>g\<in>set (grants s). g_client_id g \<in> set (map c_id (clients s))) \<and>
    (\<forall>e auth r. \<forall>g\<in>set (grants (snd (handle e auth r s))).
        g_client_id g \<in> set (map c_id (clients (snd (handle e auth r s))))) \<and>
    (\<forall>e i. handle e (Some (ADMIN_PASS e)) (DELETE_api_clients_id i) s =
              (Response 200 ok, delete_client i s) \<and>
       i \<notin> set (map c_id (clients (delete_client i s))) \<and>
       (\<forall>g\<in>set (grants (delete_client i s)). g_client_id g \<noteq> i) \<and>
       get_api_client i (delete_client i s) =
         (Response 404 (JObj [(''error'', JStr ''Not found'')]), delete_client i s) \<and>
       (\<forall>j. \<forall>g\<in>set (select_grants (delete_client i s) j). g_client_id g \<noteq> i))"
proof (intro conjI allI)
  have ref: "referential s" using assms by (rule reachable_referential)
  then show "\<forall>g\<in>set (grants s). g_client_id g \<in> set (map c_id (clients s))"
    by (simp only: referential_def)
  fix e auth r
  have "referential (snd (handle e auth r s))" using ref by (rule handle_referential)
  then show "\<forall>g\<in>set (grants (snd (handle e auth r s))).
        g_client_id g \<in> set (map c_id (clients (snd (handle e auth r s))))"
    by (simp only: referential_def)
next
  fix e i
  show "handle e (Some (ADMIN_PASS e)) (DELETE_api_clients_id i) s =
          (Response 200 ok, delete_client i s)"
    by (simp add: requireAdmin_def delete_api_clients_id_def)
  have ref: "referential s" using assms by (rule reachable_referential)
  show gone: "i \<notin> set (map c_id (clients (delete_client i s)))"
    by (auto simp: delete_client_def)
  show none: "\<forall>g\<in>set (grants (delete_client i s)). g_client_id g \<noteq> i"
    using ref by (auto simp: delete_client_def referential_def)
  show "get_api_client i (delete_client i s) =
         (Response 404 (JObj [(''error'', JStr ''Not found'')]), delete_client i s)"
    using gone by (simp add: get_api_client_def select_client_None)
  fix j
  show "\<forall>g\<in>set (select_grants (delete_client i s) j). g_client_id g \<noteq> i"
    using none by (auto simp: set_select_grants)
qed

theorem grants_always_reference_a_client_witness:
  "reachable example_store \<and>
   handle (example_env ''2024-05-01 10:00:00'' []) (Some ''grants2024'')
       (DELETE_api_clients_id ''00000000000000a0'') example_store =
     (Response 200 ok, \<lparr>clients = [example_client2], grants = [example_grant3]\<rparr>) \<and>
   get_api_client ''00000000000000a0'' \<lparr>clients = [example_client2], grants = [example_grant3]\<rparr> =
     (Response 404 (JObj [(''error'', JStr ''Not found'')]),
      \<lparr>clients = [example_client2], grants = [example_grant3]\<rparr>) \<and>
   select_grants \<lparr>clients = [example_client2], grants = [example_grant3]\<rparr> ''00000000000000a0'' = []"
proof -
  let ?e = "example_env ''2024-05-01 10:00:00'' []"
  have key: "ADMIN_PASS ?e = ''grants2024''" by (simp add: ADMIN_PASS_def example_env_def)
  have del: "delete_client ''00000000000000a0'' example_store =
      \<lparr>clients = [example_client2], grants = [example_grant3]\<rparr>"
    by (simp add: example_defs delete_client_def)
  from grants_always_reference_a_client [OF example_store_reachable]
  have "handle ?e (Some (ADMIN_PASS ?e)) (DELETE_api_clients_id ''00000000000000a0'') example_store =
          (Response 200 ok, delete_client ''00000000000000a0'' example_store)"
    and "get_api_client ''00000000000000a0'' (delete_client ''00000000000000a0'' example_store) =
         (Response 404 (JObj [(''error'', JStr ''Not found'')]),
          delete_client ''00000000000000a0'' example_store)"
    by blast+
  moreover have "select_grants \<lparr>clients = [example_client2], grants = [example_grant3]\<rparr>
      ''00000000000000a0'' = []"
    by (simp add: select_grants_def example_defs)
  ultimately show ?thesis using example_store_reachable by (simp only: key del simp_thms)
qed

section \<open>The order of a client's grants\<close>

lemma insort_key_pair:
  assumes "\<forall>y\<in>set ys. g_rowid x < g_rowid y"
  shows "insort_key (\<lambda>g. (g_sort_order g, g_rowid g)) x ys = insort_key g_sort_order x ys"
  using assms by (induction ys) auto

lemma sort_key_pair:
  assumes "sorted_wrt (<) (map g_rowid xs)"
  shows "sort_key (\<lambda>g. (g_sort_order g, g_rowid g)) xs = sort_key g_sort_order xs"
  using assms
proof (induction xs)
  case Nil
  show ?case by simp
next
  case (Cons x xs)
  then have "\<forall>y\<in>set (sort_key g_sort_order xs). g_rowid x < g_rowid y" by auto
  with Cons show ?case by (simp add: insort_key_pair)
qed

lemma select_grants_stable:
  assumes "rowids_ascending s"
  shows "select_grants s cid = sort_key g_sort_order (filter (\<lambda>g. g_client_id g = cid) (grants s))"
  unfolding select_grants_def
  using assms by (intro sort_key_pair) (simp add: rowids_ascending_def sorted_wrt_map_filter)

lemma post_api_clients_grants_ok:
  assumes "post_api_clients_grants e cid body s = (Response n j, s')"
  shows "\<exists>g. grants s' = grants s @ [g] \<and> clients s' = clients s \<and> g_id g = randomBytes_hex e 0 \<and>
           g_client_id g = cid \<and> g_sort_order g = 0 \<and> g_rowid g = next_rowid (grants s)"
proof -
  from assms have "insert_grant e (randomBytes_hex e 0) cid (grant_args body) 0 s = Inr s'"
    by (auto simp: post_api_clients_grants_def Let_def split: if_splits sum.splits)
  from insert_grant_Inr [OF this] show ?thesis by auto
qed

text \<open>
  C6. In every store the server can reach, the select that both reads use (the list of
  all clients and the public read of one client) returns the client's grants sorted by
  \<^verbatim>\<open>sort_order\<close> ascending, and grants with equal \<^verbatim>\<open>sort_order\<close> in the order of their
  insertion: it is the stable sort by \<^verbatim>\<open>sort_order\<close> of the client's rows in table order.
  Two grants created one after the other by single creates both get \<^verbatim>\<open>sort_order\<close> 0 and
  are read, among the grants of \<^verbatim>\<open>sort_order\<close> 0, last and in the order of their creation.
\<close>

theorem grants_read_by_sort_order_then_insertion:
  assumes "reachable s"
  shows "fst (get_api_clients s) =
      Response 200 (JArr (map (\<lambda>c. JObj (client_props c @ [(''grants'',
        JArr (map (\<lambda>g. JObj (grant_props g)) (select_grants s (c_id c))))])) (select_clients s))) \<and>
    (\<forall>c. select_client s cid = Some c \<longrightarrow>
       fst (get_api_client cid s) = Response 200 (JObj (client_props c @ [(''grants'',
         JArr (publicGrants (select_grants s (c_id c))))]))) \<and>
    select_grants s cid = sort_key g_sort_order (filter (\<lambda>g. g_client_id g = cid) (grants s)) \<and>
    sorted (map g_sort_order (select_grants s cid)) \<and>
    (\<forall>k. filter (\<lambda>g. g_sort_order g = k) (select_grants s cid) =
         filter (\<lambda>g. g_sort_order g = k) (filter (\<lambda>g. g_client_id g = cid) (grants s))) \<and>
    (\<forall>e1 e2 b1 b2 j1 j2 s1 s2.
       handle e1 (Some (ADMIN_PASS e1)) (POST_api_clients_grants cid b1) s = (Response 200 j1, s1) \<longrightarrow>
       handle e2 (Some (ADMIN_PASS e2)) (POST_api_clients_grants cid b2) s1 = (Response 200 j2, s2) \<longrightarrow>
       (\<exists>g1 g2. grants s2 = grants s @ [g1, g2] \<and>
          g_id g1 = randomBytes_hex e1 0 \<and> g_id g2 = randomBytes_hex e2 0 \<and>
          g_sort_order g1 = 0 \<and> g_sort_order g2 = 0 \<and>
          filter (\<lambda>g. g_sort_order g = 0) (select_grants s2 cid) =
            filter (\<lambda>g. g_sort_order g = 0) (select_grants s cid) @ [g1, g2]))"
proof (intro conjI allI impI)
  show "fst (get_api_clients s) =
      Response 200 (JArr (map (\<lambda>c. JObj (client_props c @ [(''grants'',
        JArr (map (\<lambda>g. JObj (grant_props g)) (select_grants s (c_id c))))])) (select_clients s)))"
    by (simp add: get_api_clients_def)
  have asc: "rowids_ascending s" using assms by (rule reachable_rowids_ascending)
  show eq: "select_grants s cid =
      sort_key g_sort_order (filter (\<lambda>g. g_client_id g = cid) (grants s))"
    using asc by (rule select_grants_stable)
  show "sorted (map g_sort_order (select_grants s cid))"
    by (simp only: eq sorted_sort_key)
  fix k
  show "filter (\<lambda>g. g_sort_order g = k) (select_grants s cid) =
         filter (\<lambda>g. g_sort_order g = k) (filter (\<lambda>g. g_client_id g = cid) (grants s))"
    by (simp only: eq sort_key_stable)
next
  fix c assume "select_client s cid = Some c"
  then show "fst (get_api_client cid s) = Response 200 (JObj (client_props c @ [(''grants'',
         JArr (publicGrants (select_grants s (c_id c))))]))"
    by (simp add: get_api_client_def)
next
  fix e1 e2 b1 b2 j1 j2 s1 s2
  assume h1: "handle e1 (Some (ADMIN_PASS e1)) (POST_api_clients_grants cid b1) s = (Response 200 j1, s1)"
    and h2: "handle e2 (Some (ADMIN_PASS e2)) (POST_api_clients_grants cid b2) s1 = (Response 200 j2, s2)"
  from h1 have p1: "post_api_clients_grants e1 cid b1 s = (Response 200 j1, s1)"
    by (simp add: requireAdmin_def)
  from h2 have p2: "post_api_clients_grants e2 cid b2 s1 = (Response 200 j2, s2)"
    by (simp add: requireAdmin_def)
  from post_api_clients_grants_ok [OF p1] obtain g1 where
    g1: "grants s1 = grants s @ [g1]" "g_id g1 = randomBytes_hex e1 0" "g_client_id g1 = cid"
      "g_sort_order g1 = 0" by blast
  from post_api_clients_grants_ok [OF p2] obtain g2 where
    g2: "grants s2 = grants s1 @ [g2]" "g_id g2 = randomBytes_hex e2 0" "g_client_id g2 = cid"
      "g_sort_order g2 = 0" by blast
  have r1: "reachable s1" using assms h1 by (rule reachable.request)
  have r2: "reachable s2" using r1 h2 by (rule reachable.request)
  have "filter (\<lambda>g. g_sort_order g = 0) (select_grants s2 cid) =
      filter (\<lambda>g. g_sort_order g = 0) (filter (\<lambda>g. g_client_id g = cid) (grants s2))"
    by (simp only: select_grants_stable [OF reachable_rowids_ascending [OF r2]] sort_key_stable)
  also have "\<dots> = filter (\<lambda>g. g_sort_order g = 0) (filter (\<lambda>g. g_client_id g = cid) (grants s))
      @ [g1, g2]"
    using g1 g2 by simp
  also have "filter (\<lambda>g. g_sort_order g = 0) (filter (\<lambda>g. g_client_id g = cid) (grants s)) =
      filter (\<lambda>g. g_sort_order g = 0) (select_grants s cid)"
    by (simp only: select_grants_stable [OF reachable_rowids_ascending [OF assms]] sort_key_stable)
  finally have "filter (\<lambda>g. g_sort_order g = 0) (select_grants s2 cid) =
            filter (\<lambda>g. g_sort_order g = 0) (select_grants s cid) @ [g1, g2]" .
  with g1 g2 show "\<exists>g1 g2. grants s2 = grants s @ [g1, g2] \<and>
          g_id g1 = randomBytes_hex e1 0 \<and> g_id g2 = randomBytes_hex e2 0 \<and>
          g_sort_order g1 = 0 \<and> g_sort_order g2 = 0 \<and>
          filter (\<lambda>g. g_sort_order g = 0) (select_grants s2 cid) =
            filter (\<lambda>g. g_sort_order g = 0) (select_grants s cid) @ [g1, g2]"
    by simp
qed

theorem grants_read_by_sort_order_then_insertion_witness:
  "reachable example_store \<and>
   grants example_store = [example_grant, example_grant2, example_grant3, example_grant4] \<and>
   select_grants example_store ''00000000000000a0'' = [example_grant, example_grant4, example_grant2] \<and>
   map g_sort_order (select_grants example_store ''00000000000000a0'') = [0, 0, 1] \<and>
   sorted (map g_sort_order (select_grants example_store ''00000000000000a0''))"
proof -
  have "select_grants example_store ''00000000000000a0'' =
      sort_key g_sort_order (filter (\<lambda>g. g_client_id g = ''00000000000000a0'') (grants example_store))"
    and "sorted (map g_sort_order (select_grants example_store ''00000000000000a0''))"
    using grants_read_by_sort_order_then_insertion [OF example_store_reachable] by blast+
  moreover have "sort_key g_sort_order
      (filter (\<lambda>g. g_client_id g = ''00000000000000a0'') (grants example_store)) =
      [example_grant, example_grant4, example_grant2]"
    by (simp add: example_defs)
  moreover have "map g_sort_order [example_grant, example_grant4, example_grant2] = [0, 0, 1]"
    by (simp add: example_defs)
  moreover have "grants example_store = [example_grant, example_grant2, example_grant3, example_grant4]"
    by (simp add: example_store_def)
  ultimately show ?thesis using example_store_reachable by simp
qed

section \<open>Typed request bodies bind and read back as submitted\<close>

lemma or_else_text: "text_or_falsy v \<Longrightarrow> \<exists>t. or_else v (JStr d) = JStr t"
  by (cases v) (auto simp: or_else_def)

lemma or_else_number: "number_or_falsy v \<Longrightarrow> \<exists>n. or_else v (JNum d) = JNum n"
  by (cases v) (auto simp: or_else_def)

lemma grant_args_typed:
  assumes "grant_fields_typed b"
  shows "\<exists>t1 t2 t3 t4 t5 t6 t7 n t9. grant_args b =
     [JStr t1, JStr t2, JStr t3, JStr t4, JStr t5, JStr t6, JStr t7, JNum n, JStr t9]"
proof -
  from assms obtain t1 t2 t3 t4 t5 t6 t7 n t9 where
    "or_else (field b ''name'') (JStr '''') = JStr t1"
    "or_else (field b ''org'') (JStr '''') = JStr t2"
    "or_else (field b ''cat'') (JStr '''') = JStr t3"
    "or_else (field b ''amount'') (JStr '''') = JStr t4"
    "or_else (field b ''cover'') (JStr '''') = JStr t5"
    "or_else (field b ''deadline'') (JStr '''') = JStr t6"
    "or_else (field b ''status'') (JStr ''open'') = JStr t7"
    "or_else (field b ''match_pct'') (JNum 70) = JNum n"
    "or_else (field b ''notes'') (JStr '''') = JStr t9"
    unfolding grant_fields_typed_def
    using or_else_text or_else_number by metis
  then show ?thesis by (simp add: grant_args_def)
qed

lemma bind_typed_grant:
  assumes "grant_fields_typed b"
  shows "\<exists>cs. bind_params 9 (grant_args b) = Inr cs \<and>
     (\<forall>g. grant_props (set_grant_columns e cs g) =
        (''id'', JStr (g_id g)) # (''client_id'', JStr (g_client_id g)) #
        zip grant_columns (grant_args b) @ [(''sort_order'', JNum (g_sort_order g))])"
proof -
  from grant_args_typed [OF assms] obtain t1 t2 t3 t4 t5 t6 t7 n t9 where
    args: "grant_args b =
      [JStr t1, JStr t2, JStr t3, JStr t4, JStr t5, JStr t6, JStr t7, JNum n, JStr t9]"
    by blast
  have "bind_params 9 (grant_args b) =
      Inr [TEXT t1, TEXT t2, TEXT t3, TEXT t4, TEXT t5, TEXT t6, TEXT t7, INTEGER n, TEXT t9]"
    by (simp add: args bind_params_def)
  moreover have "grant_props (set_grant_columns e
        [TEXT t1, TEXT t2, TEXT t3, TEXT t4, TEXT t5, TEXT t6, TEXT t7, INTEGER n, TEXT t9] g) =
      (''id'', JStr (g_id g)) # (''client_id'', JStr (g_client_id g)) #
        zip grant_columns (grant_args b) @ [(''sort_order'', JNum (g_sort_order g))]" for g
    by (simp add: args grant_props_def set_grant_columns_def grant_columns_def)
  ultimately show ?thesis by blast
qed

lemma insert_grant_typed:
  assumes "grant_fields_typed b" and "i \<notin> set (map g_id (grants s))"
    and "cid \<in> set (map c_id (clients s))"
  shows "\<exists>row. insert_grant e i cid (grant_args b) so s = Inr (s\<lparr>grants := grants s @ [row]\<rparr>) \<and>
     g_rowid row = next_rowid (grants s) \<and> g_id row = i \<and> g_client_id row = cid \<and>
     g_sort_order row = so \<and>
     grant_props row = (''id'', JStr i) # (''client_id'', JStr cid) #
        zip grant_columns (grant_args b) @ [(''sort_order'', JNum so)]"
proof -
  from bind_typed_grant [OF assms(1), of e] obtain cs where
    cs: "bind_params 9 (grant_args b) = Inr cs"
    "\<And>g. grant_props (set_grant_columns e cs g) =
        (''id'', JStr (g_id g)) # (''client_id'', JStr (g_client_id g)) #
        zip grant_columns (grant_args b) @ [(''sort_order'', JNum (g_sort_order g))]"
    by blast
  let ?row = "set_grant_columns e cs
     \<lparr>g_rowid = next_rowid (grants s), g_id = i, g_client_id = cid, g_name = NULL,
      g_org = NULL, g_cat = NULL, g_amount = NULL, g_cover = NULL, g_deadline = NULL,
      g_status = NULL, g_match_pct = NULL, g_notes = NULL, g_sort_order = so\<rparr>"
  have "insert_grant e i cid (grant_args b) so s = Inr (s\<lparr>grants := grants s @ [?row]\<rparr>)"
    using assms(2,3) cs(1) by (simp add: insert_grant_def)
  moreover have "grant_props ?row = (''id'', JStr i) # (''client_id'', JStr cid) #
        zip grant_columns (grant_args b) @ [(''sort_order'', JNum so)]"
    by (simp add: cs(2))
  ultimately show ?thesis by (intro exI [of _ ?row]) simp
qed

lemma forEach_insert_typed:
  assumes "cid \<in> set (map c_id (clients s))"
    and "\<forall>g\<in>set gs. \<not> nullish g \<and> grant_fields_typed g"
    and "distinct (map (randomBytes_hex e) [i..<i + length gs])"
    and "\<forall>n\<in>set [i..<i + length gs]. randomBytes_hex e n \<notin> set (map g_id (grants s))"
  shows "\<exists>rows. forEach_insert e cid i gs s = (None, s\<lparr>grants := grants s @ rows\<rparr>) \<and>
     map g_id rows = map (randomBytes_hex e) [i..<i + length gs] \<and>
     map g_sort_order rows = map int [i..<i + length gs] \<and>
     (\<forall>r\<in>set rows. g_client_id r = cid) \<and>
     map grant_props rows = map2 (\<lambda>n g. (''id'', JStr (randomBytes_hex e n)) #
        (''client_id'', JStr cid) # zip grant_columns (grant_args g) @
        [(''sort_order'', JNum (int n))]) [i..<i + length gs] gs"
  using assms
proof (induction gs arbitrary: i s)
  case Nil
  then show ?case by simp
next
  case (Cons g gs)
  have upt: "[i..<i + length (g # gs)] = i # [Suc i..<Suc i + length gs]"
  proof -
    have "i < i + length (g # gs)" by simp
    from upt_conv_Cons [OF this] show ?thesis by simp
  qed
  from Cons.prems(2) have g: "\<not> nullish g" "grant_fields_typed g" by simp_all
  from Cons.prems(4) have fresh: "randomBytes_hex e i \<notin> set (map g_id (grants s))"
    unfolding upt by simp
  from insert_grant_typed [OF g(2) fresh Cons.prems(1), of e "int i"] obtain row where
    row: "insert_grant e (randomBytes_hex e i) cid (grant_args g) (int i) s =
        Inr (s\<lparr>grants := grants s @ [row]\<rparr>)"
      "g_id row = randomBytes_hex e i" "g_client_id row = cid" "g_sort_order row = int i"
      "grant_props row = (''id'', JStr (randomBytes_hex e i)) # (''client_id'', JStr cid) #
        zip grant_columns (grant_args g) @ [(''sort_order'', JNum (int i))]"
    by blast
  let ?s1 = "s\<lparr>grants := grants s @ [row]\<rparr>"
  have 1: "cid \<in> set (map c_id (clients ?s1))" using Cons.prems(1) by simp
  have 2: "\<forall>g\<in>set gs. \<not> nullish g \<and> grant_fields_typed g" using Cons.prems(2) by simp
  note p3 = Cons.prems(3) [unfolded upt list.map distinct.simps]
  have d: "randomBytes_hex e i \<notin> set (map (randomBytes_hex e) [Suc i..<Suc i + length gs])"
    using p3 by (rule conjunct1)
  have 3: "distinct (map (randomBytes_hex e) [Suc i..<Suc i + length gs])"
    using p3 by (rule conjunct2)
  have 4: "\<forall>n\<in>set [Suc i..<Suc i + length gs]. randomBytes_hex e n \<notin> set (map g_id (grants ?s1))"
  proof
    fix n assume n: "n \<in> set [Suc i..<Suc i + length gs]"
    then have "randomBytes_hex e n \<in> set (map (randomBytes_hex e) [Suc i..<Suc i + length gs])"
      by (simp only: set_map) (rule imageI)
    with d have "randomBytes_hex e n \<noteq> randomBytes_hex e i" by metis
    moreover have "n \<in> set [i..<i + length (g # gs)]"
      unfolding upt using n by (rule list.set_intros(2))
    with Cons.prems(4) have "randomBytes_hex e n \<notin> set (map g_id (grants s))"
      by blast
    ultimately show "randomBytes_hex e n \<notin> set (map g_id (grants ?s1))"
      using row(2) by simp
  qed
  from Cons.IH [OF 1 2 3 4] obtain rows where
    rows: "forEach_insert e cid (Suc i) gs ?s1 = (None, ?s1\<lparr>grants := grants ?s1 @ rows\<rparr>)"
      "map g_id rows = map (randomBytes_hex e) [Suc i..<Suc i + length gs]"
      "map g_sort_order rows = map int [Suc i..<Suc i + length gs]"
      "\<forall>r\<in>set rows. g_client_id r = cid"
      "map grant_props rows = map2 (\<lambda>n g. (''id'', JStr (randomBytes_hex e n)) #
        (''client_id'', JStr cid) # zip grant_columns (grant_args g) @
        [(''sort_order'', JNum (int n))]) [Suc i..<Suc i + length gs] gs"
    by blast
  have "forEach_insert e cid i (g # gs) s = (None, s\<lparr>grants := grants s @ (row # rows)\<rparr>)"
    using g(1) row(1) rows(1) by simp
  then show ?case
    unfolding upt using row rows by (intro exI [of _ "row # rows"]) simp
qed

section \<open>Bulk replace, then fetch\<close>

lemma sorted_pair_of_strict:
  "sorted_wrt (<) (map f xs) \<Longrightarrow> sorted (map (\<lambda>x. (f x, h x)) xs)"
  by (induction xs) auto

lemma select_grants_of_new_rows:
  assumes "grants s' = filter (\<lambda>g. g_client_id g \<noteq> cid) old @ rows"
    and "\<forall>r\<in>set rows. g_client_id r = cid"
    and "map g_sort_order rows = map int [0..<k]"
  shows "select_grants s' cid = rows"
proof -
  have "filter (\<lambda>g. g_client_id g = cid) (grants s') = rows"
    using assms(1,2) by (simp add: filter_empty_conv [THEN iffD2] filter_id_conv [THEN iffD2])
  moreover have "sorted_wrt (<) (map g_sort_order rows)"
    unfolding assms(3) by (simp add: sorted_wrt_map)
  then have "sorted (map (\<lambda>g. (g_sort_order g, g_rowid g)) rows)"
    by (rule sorted_pair_of_strict)
  ultimately show ?thesis
    by (simp add: select_grants_def sort_key_id_if_sorted)
qed

lemma submitted_value_returned:
  assumes "k \<in> set grant_columns" and "truthy (field g k)"
  shows "map_of (zip grant_columns (grant_args g)) k = Some (field g k)"
proof -
  from assms(1) have "k = ''name'' \<or> k = ''org'' \<or> k = ''cat'' \<or> k = ''amount'' \<or>
      k = ''cover'' \<or> k = ''deadline'' \<or> k = ''status'' \<or> k = ''match_pct'' \<or> k = ''notes''"
    by (simp add: grant_columns_def)
  then show ?thesis
    by (elim disjE) (use assms(2) in \<open>simp_all add: grant_columns_def grant_args_def or_else_def\<close>)
qed

text \<open>
  C5. Let the client exist, let the body's \<^verbatim>\<open>grants\<close> be a list of typed grant objects, and
  let the identifiers drawn be distinct and not in use by a grant of another client.
  Then the authorized bulk replace answers ok; the grants table is the rows of the
  other clients followed by one new row per submitted grant; the select of the client's
  grants (and so the public read, which is shown) returns exactly these rows in the
  submitted order, the \<open>n\<close>-th with the \<open>n\<close>-th identifier drawn, \<^verbatim>\<open>sort_order = n\<close> and
  the submitted values (a falsy one replaced by its default); none of the client's
  former rows is among the grants of the table any more.
\<close>

theorem bulk_replace_then_fetch:
  assumes client: "select_client s cid = Some c"
    and body: "field body ''grants'' = JArr gs"
    and typed: "\<forall>g\<in>set gs. \<not> nullish g \<and> grant_fields_typed g"
    and distinct: "distinct (map (randomBytes_hex e) [0..<length gs])"
    and fresh: "\<forall>n<length gs. randomBytes_hex e n \<notin>
       set (map g_id (filter (\<lambda>g. g_client_id g \<noteq> cid) (grants s)))"
  shows "\<exists>s' rows.
      handle e (Some (ADMIN_PASS e)) (PUT_api_clients_grants cid body) s = (Response 200 ok, s') \<and>
      clients s' = clients s \<and>
      grants s' = filter (\<lambda>g. g_client_id g \<noteq> cid) (grants s) @ rows \<and>
      select_grants s' cid = rows \<and>
      get_api_client cid s' =
        (Response 200 (JObj (client_props c @ [(''grants'', JArr (publicGrants rows))])), s') \<and>
      map g_id rows = map (randomBytes_hex e) [0..<length gs] \<and>
      map g_sort_order rows = map int [0..<length gs] \<and>
      map grant_props rows = map2 (\<lambda>n g. (''id'', JStr (randomBytes_hex e n)) #
        (''client_id'', JStr cid) # zip grant_columns (grant_args g) @
        [(''sort_order'', JNum (int n))]) [0..<length gs] gs \<and>
      (\<forall>g\<in>set gs. \<forall>k\<in>set grant_columns. truthy (field g k) \<longrightarrow>
         map_of (zip grant_columns (grant_args g)) k = Some (field g k))"
proof -
  let ?s1 = "delete_grants_of cid s"
  have notnull: "\<not> nullish body" using body by (cases body) simp_all
  have cid: "c_id c = cid" "cid \<in> set (map c_id (clients s))"
    using client by (auto simp: select_client_def find_Some_iff)
  have 1: "cid \<in> set (map c_id (clients ?s1))" using cid by (simp add: delete_grants_of_def)
  have 3: "distinct (map (randomBytes_hex e) [0..<0 + length gs])" using distinct by simp
  have 4: "\<forall>n\<in>set [0..<0 + length gs]. randomBytes_hex e n \<notin> set (map g_id (grants ?s1))"
    using fresh by (simp add: delete_grants_of_def)
  from forEach_insert_typed [OF 1 typed 3 4] obtain rows where
    rows: "forEach_insert e cid 0 gs ?s1 = (None, ?s1\<lparr>grants := grants ?s1 @ rows\<rparr>)"
      "map g_id rows = map (randomBytes_hex e) [0..<length gs]"
      "map g_sort_order rows = map int [0..<length gs]"
      "\<forall>r\<in>set rows. g_client_id r = cid"
      "map grant_props rows = map2 (\<lambda>n g. (''id'', JStr (randomBytes_hex e n)) #
        (''client_id'', JStr cid) # zip grant_columns (grant_args g) @
        [(''sort_order'', JNum (int n))]) [0..<length gs] gs"
    by auto
  let ?s' = "?s1\<lparr>grants := grants ?s1 @ rows\<rparr>"
  have run: "handle e (Some (ADMIN_PASS e)) (PUT_api_clients_grants cid body) s = (Response 200 ok, ?s')"
    using notnull body rows(1) by (simp add: requireAdmin_def put_api_clients_grants_def)
  have cl: "clients ?s' = clients s" by (simp add: delete_grants_of_def)
  have gr: "grants ?s' = filter (\<lambda>g. g_client_id g \<noteq> cid) (grants s) @ rows"
    by (simp add: delete_grants_of_def)
  have sel: "select_grants ?s' cid = rows"
    using gr rows(4) rows(3) by (rule select_grants_of_new_rows)
  have "select_client ?s' cid = Some c" using client by (simp add: select_client_def cl)
  then have get: "get_api_client cid ?s' =
        (Response 200 (JObj (client_props c @ [(''grants'', JArr (publicGrants rows))])), ?s')"
    using sel cid(1) by (simp add: get_api_client_def)
  have sub: "\<forall>g\<in>set gs. \<forall>k\<in>set grant_columns. truthy (field g k) \<longrightarrow>
         map_of (zip grant_columns (grant_args g)) k = Some (field g k)"
    using submitted_value_returned by blast
  show ?thesis
    by (intro exI [of _ ?s'] exI [of _ rows] conjI) (fact run cl gr sel get rows(2,3,5) sub)+
qed

theorem bulk_replace_then_fetch_witness:
  "select_client example_store ''00000000000000a0'' = Some example_client \<and>
   (\<exists>s' rows.
      handle (example_env ''2024-05-02 08:00:00'' [''00000000000000c0'', ''00000000000000c1''])
        (Some ''grants2024'')
        (PUT_api_clients_grants ''00000000000000a0'' (JObj [(''grants'', JArr
          [JObj [(''name'', JStr ''Round A''), (''match_pct'', JNum 90), (''notes'', JStr ''warm'')],
           JObj [(''name'', JStr ''Round B''), (''status'', JStr '''')]])]))
        example_store = (Response 200 ok, s') \<and>
      grants s' = example_grant3 # rows \<and>
      select_grants s' ''00000000000000a0'' = rows \<and>
      map g_id rows = [''00000000000000c0'', ''00000000000000c1''] \<and>
      map g_sort_order rows = [0, 1] \<and>
      map grant_props rows =
        [[(''id'', JStr ''00000000000000c0''), (''client_id'', JStr ''00000000000000a0''),
          (''name'', JStr ''Round A''), (''org'', JStr ''''), (''cat'', JStr ''''),
          (''amount'', JStr ''''), (''cover'', JStr ''''), (''deadline'', JStr ''''),
          (''status'', JStr ''open''), (''match_pct'', JNum 90), (''notes'', JStr ''warm''),
          (''sort_order'', JNum 0)],
         [(''id'', JStr ''00000000000000c1''), (''client_id'', JStr ''00000000000000a0''),
          (''name'', JStr ''Round B''), (''org'', JStr ''''), (''cat'', JStr ''''),
          (''amount'', JStr ''''), (''cover'', JStr ''''), (''deadline'', JStr ''''),
          (''status'', JStr ''open''), (''match_pct'', JNum 70), (''notes'', JStr ''''),
          (''sort_order'', JNum 1)]])"
proof -
  let ?e = "example_env ''2024-05-02 08:00:00'' [''00000000000000c0'', ''00000000000000c1'']"
  let ?gs = "[JObj [(''name'', JStr ''Round A''), (''match_pct'', JNum 90), (''notes'', JStr ''warm'')],
           JObj [(''name'', JStr ''Round B''), (''status'', JStr '''')]]"
  let ?body = "JObj [(''grants'', JArr ?gs)]"
  have key: "ADMIN_PASS ?e = ''grants2024''" by (simp add: ADMIN_PASS_def example_env_def)
  have upt2: "[0..<length ?gs] = [0, 1]" by (simp add: upt_rec)
  have 1: "select_client example_store ''00000000000000a0'' = Some example_client"
    by (simp add: select_client_def example_defs)
  have 2: "field ?body ''grants'' = JArr ?gs" by simp
  have 3: "\<forall>g\<in>set ?gs. \<not> nullish g \<and> grant_fields_typed g"
    by (simp add: grant_fields_typed_def)
  have 4: "distinct (map (randomBytes_hex ?e) [0..<length ?gs])"
    unfolding upt2 by (simp add: example_env_def)
  have 5: "\<forall>n<length ?gs. randomBytes_hex ?e n \<notin>
       set (map g_id (filter (\<lambda>g. g_client_id g \<noteq> ''00000000000000a0'') (grants example_store)))"
    by (simp add: example_defs less_Suc_eq)
  have old: "filter (\<lambda>g. g_client_id g \<noteq> ''00000000000000a0'') (grants example_store) = [example_grant3]"
    by (simp add: example_defs)
  have ids: "map (randomBytes_hex ?e) [0..<length ?gs] = [''00000000000000c0'', ''00000000000000c1'']"
    unfolding upt2 by (simp add: example_env_def)
  have so: "map int [0..<length ?gs] = [0, 1]" unfolding upt2 by simp
  have props: "map2 (\<lambda>n g. (''id'', JStr (randomBytes_hex ?e n)) #
        (''client_id'', JStr ''00000000000000a0'') # zip grant_columns (grant_args g) @
        [(''sort_order'', JNum (int n))]) [0..<length ?gs] ?gs =
        [[(''id'', JStr ''00000000000000c0''), (''client_id'', JStr ''00000000000000a0''),
          (''name'', JStr ''Round A''), (''org'', JStr ''''), (''cat'', JStr ''''),
          (''amount'', JStr ''''), (''cover'', JStr ''''), (''deadline'', JStr ''''),
          (''status'', JStr ''open''), (''match_pct'', JNum 90), (''notes'', JStr ''warm''),
          (''sort_order'', JNum 0)],
         [(''id'', JStr ''00000000000000c1''), (''client_id'', JStr ''00000000000000a0''),
          (''name'', JStr ''Round B''), (''org'', JStr ''''), (''cat'', JStr ''''),
          (''amount'', JStr ''''), (''cover'', JStr ''''), (''deadline'', JStr ''''),
          (''status'', JStr ''open''), (''match_pct'', JNum 70), (''notes'', JStr ''''),
          (''sort_order'', JNum 1)]]"
    unfolding upt2 by (simp add: example_env_def grant_columns_def grant_args_def or_else_def)
  from bulk_replace_then_fetch [OF 1 2 3 4 5] obtain s' rows where
    "handle ?e (Some (ADMIN_PASS ?e)) (PUT_api_clients_grants ''00000000000000a0'' ?body)
       example_store = (Response 200 ok, s')"
    "grants s' = filter (\<lambda>g. g_client_id g \<noteq> ''00000000000000a0'') (grants example_store) @ rows"
    "select_grants s' ''00000000000000a0'' = rows"
    "map g_id rows = map (randomBytes_hex ?e) [0..<length ?gs]"
    "map g_sort_order rows = map int [0..<length ?gs]"
    "map grant_props rows = map2 (\<lambda>n g. (''id'', JStr (randomBytes_hex ?e n)) #
        (''client_id'', JStr ''00000000000000a0'') # zip grant_columns (grant_args g) @
        [(''sort_order'', JNum (int n))]) [0..<length ?gs] ?gs"
    by blast
  then have concl: "handle ?e (Some ''grants2024'') (PUT_api_clients_grants ''00000000000000a0'' ?body)
       example_store = (Response 200 ok, s') \<and>
      grants s' = example_grant3 # rows \<and>
      select_grants s' ''00000000000000a0'' = rows \<and>
      map g_id rows = [''00000000000000c0'', ''00000000000000c1''] \<and>
      map g_sort_order rows = [0, 1] \<and>
      map grant_props rows =
        [[(''id'', JStr ''00000000000000c0''), (''client_id'', JStr ''00000000000000a0''),
          (''name'', JStr ''Round A''), (''org'', JStr ''''), (''cat'', JStr ''''),
          (''amount'', JStr ''''), (''cover'', JStr ''''), (''deadline'', JStr ''''),
          (''status'', JStr ''open''), (''match_pct'', JNum 90), (''notes'', JStr ''warm''),
          (''sort_order'', JNum 0)],
         [(''id'', JStr ''00000000000000c1''), (''client_id'', JStr ''00000000000000a0''),
          (''name'', JStr ''Round B''), (''org'', JStr ''''), (''cat'', JStr ''''),
          (''amount'', JStr ''''), (''cover'', JStr ''''), (''deadline'', JStr ''''),
          (''status'', JStr ''open''), (''match_pct'', JNum 70), (''notes'', JStr ''''),
          (''sort_order'', JNum 1)]]"
    by (simp only: key old ids so props append_Cons append_Nil simp_thms)
  show ?thesis
    by (rule conjI [OF 1]) (rule exI [of _ s'], rule exI [of _ rows], rule concl)
qed

section \<open>A bulk replace that fails\<close>





section \<open>Updating one grant\<close>

lemma columns_of_grant_props:
  assumes "k \<in> set grant_columns"
    and "grant_props g = (''id'', i) # (''client_id'', c) # zip grant_columns (grant_args b) @ [so]"
  shows "map_of (grant_props g) k = Some (if truthy (field b k) then field b k else grant_default k)"
proof -
  from assms(1) have "k = ''name'' \<or> k = ''org'' \<or> k = ''cat'' \<or> k = ''amount'' \<or>
      k = ''cover'' \<or> k = ''deadline'' \<or> k = ''status'' \<or> k = ''match_pct'' \<or> k = ''notes''"
    by (simp add: grant_columns_def)
  then show ?thesis unfolding assms(2)
    by (elim disjE)
      (simp_all add: grant_columns_def grant_args_def or_else_def grant_default_def)
qed

lemma update_grant_typed:
  assumes "grant_fields_typed b"
  shows "\<exists>cs. update_grant e (grant_args b) i s =
        Inr (s\<lparr>grants := map (\<lambda>g. if g_id g = i then set_grant_columns e cs g else g) (grants s)\<rparr>) \<and>
     (\<forall>g. grant_props (set_grant_columns e cs g) =
        (''id'', JStr (g_id g)) # (''client_id'', JStr (g_client_id g)) #
        zip grant_columns (grant_args b) @ [(''sort_order'', JNum (g_sort_order g))])"
proof -
  from bind_typed_grant [OF assms, of e] obtain cs where
    cs: "bind_params 9 (grant_args b) = Inr cs"
    "\<forall>g. grant_props (set_grant_columns e cs g) =
        (''id'', JStr (g_id g)) # (''client_id'', JStr (g_client_id g)) #
        zip grant_columns (grant_args b) @ [(''sort_order'', JNum (g_sort_order g))]"
    by blast
  then show ?thesis by (intro exI [of _ cs]) (simp add: update_grant_def)
qed

lemma put_api_grants_id_frame:
  "clients (snd (put_api_grants_id e i body s)) = clients s \<and>
   length (grants (snd (put_api_grants_id e i body s))) = length (grants s) \<and>
   (\<forall>n<length (grants s).
      g_rowid (grants (snd (put_api_grants_id e i body s)) ! n) = g_rowid (grants s ! n) \<and>
      g_id (grants (snd (put_api_grants_id e i body s)) ! n) = g_id (grants s ! n) \<and>
      g_client_id (grants (snd (put_api_grants_id e i body s)) ! n) = g_client_id (grants s ! n) \<and>
      g_sort_order (grants (snd (put_api_grants_id e i body s)) ! n) = g_sort_order (grants s ! n) \<and>
      (g_id (grants s ! n) \<noteq> i \<longrightarrow> grants (snd (put_api_grants_id e i body s)) ! n = grants s ! n))"
proof (cases "nullish body")
  case True
  then show ?thesis by (simp add: put_api_grants_id_def)
next
  case False
  show ?thesis
  proof (cases "update_grant e (grant_args body) i s")
    case (Inl err)
    with False show ?thesis by (simp add: put_api_grants_id_def)
  next
    case (Inr s')
    then obtain cs where "s' = s\<lparr>grants :=
        map (\<lambda>g. if g_id g = i then set_grant_columns e cs g else g) (grants s)\<rparr>"
      by (auto simp: update_grant_def split: sum.splits)
    moreover have "snd (put_api_grants_id e i body s) = s'"
      using False Inr by (simp add: put_api_grants_id_def)
    ultimately show ?thesis by simp
  qed
qed

text \<open>
  C9. Whatever the body, an authorized update of grant \<open>i\<close> leaves the clients table, the
  number of grant rows and, in every grant row, \<^verbatim>\<open>id\<close>, \<^verbatim>\<open>client_id\<close>, \<^verbatim>\<open>sort_order\<close> and the
  rowid as they were, and every row with another id entirely as it was. With a typed
  body it answers ok, and in a row with id \<open>i\<close> each of the nine columns from
  \<^verbatim>\<open>name\<close> to \<^verbatim>\<open>notes\<close> then holds the submitted value, or its default where that value
  is falsy.
\<close>

theorem grant_update_overwrites_fields_only:
  "clients (snd (handle e (Some (ADMIN_PASS e)) (PUT_api_grants_id i body) s)) = clients s \<and>
   length (grants (snd (handle e (Some (ADMIN_PASS e)) (PUT_api_grants_id i body) s))) =
     length (grants s) \<and>
   (\<forall>n<length (grants s).
      g_id (grants (snd (handle e (Some (ADMIN_PASS e)) (PUT_api_grants_id i body) s)) ! n) =
        g_id (grants s ! n) \<and>
      g_client_id (grants (snd (handle e (Some (ADMIN_PASS e)) (PUT_api_grants_id i body) s)) ! n) =
        g_client_id (grants s ! n) \<and>
      g_sort_order (grants (snd (handle e (Some (ADMIN_PASS e)) (PUT_api_grants_id i body) s)) ! n) =
        g_sort_order (grants s ! n) \<and>
      g_rowid (grants (snd (handle e (Some (ADMIN_PASS e)) (PUT_api_grants_id i body) s)) ! n) =
        g_rowid (grants s ! n) \<and>
      (g_id (grants s ! n) \<noteq> i \<longrightarrow>
         grants (snd (handle e (Some (ADMIN_PASS e)) (PUT_api_grants_id i body) s)) ! n =
           grants s ! n)) \<and>
   (\<not> nullish body \<and> grant_fields_typed body \<longrightarrow>
      fst (handle e (Some (ADMIN_PASS e)) (PUT_api_grants_id i body) s) = Response 200 ok \<and>
      (\<forall>n<length (grants s). g_id (grants s ! n) = i \<longrightarrow>
         (\<forall>k\<in>set grant_columns.
            map_of (grant_props
              (grants (snd (handle e (Some (ADMIN_PASS e)) (PUT_api_grants_id i body) s)) ! n)) k =
            Some (if truthy (field body k) then field body k else grant_default k))))"
proof -
  have h: "handle e (Some (ADMIN_PASS e)) (PUT_api_grants_id i body) s =
      put_api_grants_id e i body s"
    by (simp add: requireAdmin_def)
  have typed: "fst (put_api_grants_id e i body s) = Response 200 ok \<and>
      (\<forall>n<length (grants s). g_id (grants s ! n) = i \<longrightarrow>
         (\<forall>k\<in>set grant_columns.
            map_of (grant_props (grants (snd (put_api_grants_id e i body s)) ! n)) k =
            Some (if truthy (field body k) then field body k else grant_default k)))"
    if "\<not> nullish body" and t: "grant_fields_typed body"
  proof -
    from update_grant_typed [OF t, of e i s] obtain cs where
      cs: "update_grant e (grant_args body) i s =
        Inr (s\<lparr>grants := map (\<lambda>g. if g_id g = i then set_grant_columns e cs g else g) (grants s)\<rparr>)"
        "\<And>g. grant_props (set_grant_columns e cs g) =
        (''id'', JStr (g_id g)) # (''client_id'', JStr (g_client_id g)) #
        zip grant_columns (grant_args body) @ [(''sort_order'', JNum (g_sort_order g))]"
      by blast
    have run: "put_api_grants_id e i body s = (Response 200 ok,
        s\<lparr>grants := map (\<lambda>g. if g_id g = i then set_grant_columns e cs g else g) (grants s)\<rparr>)"
      using that(1) cs(1) by (simp add: put_api_grants_id_def)
    have "map_of (grant_props (grants (snd (put_api_grants_id e i body s)) ! n)) k =
            Some (if truthy (field body k) then field body k else grant_default k)"
      if "n < length (grants s)" "g_id (grants s ! n) = i" "k \<in> set grant_columns" for n k
    proof -
      have "grants (snd (put_api_grants_id e i body s)) ! n = set_grant_columns e cs (grants s ! n)"
        using that(1,2) by (simp add: run)
      then show ?thesis using columns_of_grant_props [OF that(3) cs(2)] by simp
    qed
    then show ?thesis using run by simp
  qed
  show ?thesis unfolding h using put_api_grants_id_frame [of e i body s] typed by blast
qed

theorem grant_update_overwrites_fields_only_witness:
  "\<not> nullish (JObj [(''name'', JStr ''Export aid 2''), (''status'', JStr ''''),
       (''match_pct'', JNum 0), (''notes'', JStr ''ask Dana'')]) \<and>
   grant_fields_typed (JObj [(''name'', JStr ''Export aid 2''), (''status'', JStr ''''),
       (''match_pct'', JNum 0), (''notes'', JStr ''ask Dana'')]) \<and>
   handle (example_env ''2024-05-02 08:00:00'' []) (Some ''grants2024'')
     (PUT_api_grants_id ''00000000000000b1''
        (JObj [(''name'', JStr ''Export aid 2''), (''status'', JStr ''''),
               (''match_pct'', JNum 0), (''notes'', JStr ''ask Dana'')]))
     example_store =
   (Response 200 ok,
    \<lparr>clients = [example_client, example_client2],
     grants = [example_grant,
       \<lparr>g_rowid = 2, g_id = ''00000000000000b1'', g_client_id = ''00000000000000a0'',
        g_name = TEXT ''Export aid 2'', g_org = TEXT '''', g_cat = TEXT '''', g_amount = TEXT '''',
        g_cover = TEXT '''', g_deadline = TEXT '''', g_status = TEXT ''open'',
        g_match_pct = INTEGER 70, g_notes = TEXT ''ask Dana'', g_sort_order = 1\<rparr>,
       example_grant3, example_grant4]\<rparr>)"
  using grant_update_overwrites_fields_only [of "example_env ''2024-05-02 08:00:00'' []"
      "''00000000000000b1''"
      "JObj [(''name'', JStr ''Export aid 2''), (''status'', JStr ''''),
             (''match_pct'', JNum 0), (''notes'', JStr ''ask Dana'')]" example_store]
  by (simp add: example_defs handler_defs statement_defs grant_fields_typed_def)

section \<open>Updates and deletes of ids that are not in the store\<close>

lemma client_args_typed:
  assumes "client_fields_typed b"
  shows "\<exists>t1 t2 t3 t4 t5 t6 t7. client_args b =
     [JStr t1, JStr t2, JStr t3, JStr t4, JStr t5, JStr t6, JStr t7]"
proof -
  from assms have "is_string (field b ''name'')" by (simp add: client_fields_typed_def)
  then obtain t1 where "field b ''name'' = JStr t1" by (cases "field b ''name''") simp_all
  moreover from assms obtain t2 t3 t4 t5 t6 t7 where
    "or_else (field b ''contact'') (JStr '''') = JStr t2"
    "or_else (field b ''sector'') (JStr '''') = JStr t3"
    "or_else (field b ''email'') (JStr '''') = JStr t4"
    "or_else (field b ''phone'') (JStr '''') = JStr t5"
    "or_else (field b ''message'') (JStr '''') = JStr t6"
    "or_else (field b ''presenter'') (JStr DEFAULT_PRESENTER) = JStr t7"
    unfolding client_fields_typed_def
    using or_else_text by metis
  ultimately show ?thesis by (simp add: client_args_def)
qed

lemma bind_typed_client:
  assumes "client_fields_typed b"
  shows "\<exists>cs. bind_params 7 (client_args b) = Inr cs \<and> text_affinity e (cs ! 0) \<noteq> NULL \<and>
     (\<forall>c. client_props (set_client_columns e cs c) =
        (''id'', JStr (c_id c)) # zip client_columns (client_args b) @
        [(''created_at'', JStr (c_created_at c)), (''updated_at'', JStr (c_updated_at c))])"
proof -
  from client_args_typed [OF assms] obtain t1 t2 t3 t4 t5 t6 t7 where
    args: "client_args b = [JStr t1, JStr t2, JStr t3, JStr t4, JStr t5, JStr t6, JStr t7]"
    by blast
  let ?cs = "[TEXT t1, TEXT t2, TEXT t3, TEXT t4, TEXT t5, TEXT t6, TEXT t7]"
  have "bind_params 7 (client_args b) = Inr ?cs"
    by (simp add: args bind_params_def)
  moreover have "text_affinity e (?cs ! 0) \<noteq> NULL" by simp
  moreover have "client_props (set_client_columns e ?cs c) =
      (''id'', JStr (c_id c)) # zip client_columns (client_args b) @
        [(''created_at'', JStr (c_created_at c)), (''updated_at'', JStr (c_updated_at c))]" for c
    by (simp add: args client_props_def set_client_columns_def client_columns_def)
  ultimately show ?thesis by blast
qed

lemma map_if_absent: "i \<notin> set (map f xs) \<Longrightarrow> map (\<lambda>x. if f x = i then h x else x) xs = xs"
  by (induction xs) auto

text \<open>
  C8. For an id that no client has, the authorized delete of the client answers ok and
  the store is the same; the authorized update leaves the store the same whatever the
  body, and answers ok whenever the body is not null and its values bind, as the values
  of every typed body do. The same holds for the delete and the update of a grant id
  that no grant has. The same store means no new row and no changed row.
\<close>

theorem missing_ids_are_successful_no_ops:
  "(i \<notin> set (map c_id (clients s)) \<longrightarrow>
      handle e (Some (ADMIN_PASS e)) (DELETE_api_clients_id i) s = (Response 200 ok, s) \<and>
      snd (handle e (Some (ADMIN_PASS e)) (PUT_api_clients_id i body) s) = s \<and>
      (\<not> nullish body \<and> (\<exists>cs. bind_params 7 (client_args body) = Inr cs) \<longrightarrow>
         handle e (Some (ADMIN_PASS e)) (PUT_api_clients_id i body) s = (Response 200 ok, s))) \<and>
   (i \<notin> set (map g_id (grants s)) \<longrightarrow>
      handle e (Some (ADMIN_PASS e)) (DELETE_api_grants_id i) s = (Response 200 ok, s) \<and>
      snd (handle e (Some (ADMIN_PASS e)) (PUT_api_grants_id i body) s) = s \<and>
      (\<not> nullish body \<and> (\<exists>cs. bind_params 9 (grant_args body) = Inr cs) \<longrightarrow>
         handle e (Some (ADMIN_PASS e)) (PUT_api_grants_id i body) s = (Response 200 ok, s))) \<and>
   (client_fields_typed body \<longrightarrow> (\<exists>cs. bind_params 7 (client_args body) = Inr cs)) \<and>
   (grant_fields_typed body \<longrightarrow> (\<exists>cs. bind_params 9 (grant_args body) = Inr cs))"
proof (intro conjI impI)
  assume no: "i \<notin> set (map c_id (clients s))"
  then show "handle e (Some (ADMIN_PASS e)) (DELETE_api_clients_id i) s = (Response 200 ok, s)"
    by (simp add: requireAdmin_def delete_api_clients_id_def delete_client_def)
  have upd: "update_client e (client_args body) i s = Inr s'' \<Longrightarrow> s'' = s" for s''
    using no by (auto simp: update_client_def map_if_absent split: sum.splits)
  show "snd (handle e (Some (ADMIN_PASS e)) (PUT_api_clients_id i body) s) = s"
    using upd by (auto simp: requireAdmin_def put_api_clients_id_def split: sum.splits)
  assume "\<not> nullish body \<and> (\<exists>cs. bind_params 7 (client_args body) = Inr cs)"
  then show "handle e (Some (ADMIN_PASS e)) (PUT_api_clients_id i body) s = (Response 200 ok, s)"
    using no by (auto simp: requireAdmin_def put_api_clients_id_def update_client_def map_if_absent)
next
  assume no: "i \<notin> set (map g_id (grants s))"
  then have "filter (\<lambda>g. g_id g \<noteq> i) (grants s) = grants s"
    by (auto simp: filter_id_conv)
  then show "handle e (Some (ADMIN_PASS e)) (DELETE_api_grants_id i) s = (Response 200 ok, s)"
    by (simp add: requireAdmin_def delete_api_grants_id_def delete_grant_def)
  have upd: "update_grant e (grant_args body) i s = Inr s'' \<Longrightarrow> s'' = s" for s''
    using no by (auto simp: update_grant_def map_if_absent split: sum.splits)
  show "snd (handle e (Some (ADMIN_PASS e)) (PUT_api_grants_id i body) s) = s"
    using upd by (auto simp: requireAdmin_def put_api_grants_id_def split: sum.splits)
  assume "\<not> nullish body \<and> (\<exists>cs. bind_params 9 (grant_args body) = Inr cs)"
  then show "handle e (Some (ADMIN_PASS e)) (PUT_api_grants_id i body) s = (Response 200 ok, s)"
    using no by (auto simp: requireAdmin_def put_api_grants_id_def update_grant_def map_if_absent)
next
  assume "client_fields_typed body"
  from bind_typed_client [OF this, of e]
  show "\<exists>cs. bind_params 7 (client_args body) = Inr cs" by blast
next
  assume "grant_fields_typed body"
  from bind_typed_grant [OF this, of e]
  show "\<exists>cs. bind_params 9 (grant_args body) = Inr cs" by blast
qed

theorem missing_ids_are_successful_no_ops_witness:
  "''00000000000000d9'' \<notin> set (map c_id (clients example_store)) \<and>
   ''00000000000000d9'' \<notin> set (map g_id (grants example_store)) \<and>
   handle (example_env ''2024-05-02 08:00:00'' []) (Some ''grants2024'')
     (DELETE_api_clients_id ''00000000000000d9'') example_store = (Response 200 ok, example_store) \<and>
   handle (example_env ''2024-05-02 08:00:00'' []) (Some ''grants2024'')
     (PUT_api_clients_id ''00000000000000d9'' (JObj [(''name'', JStr ''Ghost'')])) example_store =
     (Response 200 ok, example_store) \<and>
   handle (example_env ''2024-05-02 08:00:00'' []) (Some ''grants2024'')
     (DELETE_api_grants_id ''00000000000000d9'') example_store = (Response 200 ok, example_store) \<and>
   handle (example_env ''2024-05-02 08:00:00'' []) (Some ''grants2024'')
     (PUT_api_grants_id ''00000000000000d9'' (JObj [(''name'', JStr ''Ghost'')])) example_store =
     (Response 200 ok, example_store)"
proof -
  let ?e = "example_env ''2024-05-02 08:00:00'' []"
  let ?b = "JObj [(''name'', JStr ''Ghost'')]"
  have key: "ADMIN_PASS ?e = ''grants2024''" by (simp add: ADMIN_PASS_def example_env_def)
  have c: "''00000000000000d9'' \<notin> set (map c_id (clients example_store))"
    by (simp add: example_defs)
  have g: "''00000000000000d9'' \<notin> set (map g_id (grants example_store))"
    by (simp add: example_defs)
  have b: "\<not> nullish ?b" "client_fields_typed ?b" "grant_fields_typed ?b"
    by (simp_all add: client_fields_typed_def grant_fields_typed_def)
  note t = missing_ids_are_successful_no_ops [of "''00000000000000d9''" example_store ?e ?b]
  from t b have binds: "\<exists>cs. bind_params 7 (client_args ?b) = Inr cs"
    "\<exists>cs. bind_params 9 (grant_args ?b) = Inr cs" by blast+
  from t c g b(1) binds show ?thesis unfolding key by blast
qed

section \<open>Creating a client or a grant\<close>

lemma columns_of_client_props:
  assumes "k \<in> set client_columns" and "is_string (field b ''name'')"
    and "client_props c = (''id'', i) # zip client_columns (client_args b) @ rest"
  shows "map_of (client_props c) k = Some (if truthy (field b k) then field b k else client_default k)"
proof -
  from assms(2) obtain t where t: "field b ''name'' = JStr t"
    by (cases "field b ''name''") simp_all
  from assms(1) have "k = ''name'' \<or> k = ''contact'' \<or> k = ''sector'' \<or> k = ''email'' \<or>
      k = ''phone'' \<or> k = ''message'' \<or> k = ''presenter''"
    by (simp add: client_columns_def)
  then show ?thesis unfolding assms(3)
    by (elim disjE)
      (simp_all add: t client_columns_def client_args_def or_else_def client_default_def)
qed

lemma typed_grant_cells_not_null:
  assumes "grant_fields_typed b" and "bind_params 9 (grant_args b) = Inr cs"
  shows "NULL \<notin> set [g_name (set_grant_columns e cs g), g_org (set_grant_columns e cs g),
     g_cat (set_grant_columns e cs g), g_amount (set_grant_columns e cs g),
     g_cover (set_grant_columns e cs g), g_deadline (set_grant_columns e cs g),
     g_status (set_grant_columns e cs g), g_match_pct (set_grant_columns e cs g),
     g_notes (set_grant_columns e cs g)]"
proof -
  from grant_args_typed [OF assms(1)] obtain t1 t2 t3 t4 t5 t6 t7 n t9 where
    args: "grant_args b =
      [JStr t1, JStr t2, JStr t3, JStr t4, JStr t5, JStr t6, JStr t7, JNum n, JStr t9]"
    by blast
  with assms(2) have
    "cs = [TEXT t1, TEXT t2, TEXT t3, TEXT t4, TEXT t5, TEXT t6, TEXT t7, INTEGER n, TEXT t9]"
    by (simp add: bind_params_def)
  then show ?thesis by (simp add: set_grant_columns_def)
qed

lemma typed_client_cells_not_null:
  assumes "client_fields_typed b" and "bind_params 7 (client_args b) = Inr cs"
  shows "NULL \<notin> set [c_name (set_client_columns e cs c), c_contact (set_client_columns e cs c),
     c_sector (set_client_columns e cs c), c_email (set_client_columns e cs c),
     c_phone (set_client_columns e cs c), c_message (set_client_columns e cs c),
     c_presenter (set_client_columns e cs c)]"
proof -
  from client_args_typed [OF assms(1)] obtain t1 t2 t3 t4 t5 t6 t7 where
    args: "client_args b = [JStr t1, JStr t2, JStr t3, JStr t4, JStr t5, JStr t6, JStr t7]"
    by blast
  with assms(2) have "cs = [TEXT t1, TEXT t2, TEXT t3, TEXT t4, TEXT t5, TEXT t6, TEXT t7]"
    by (simp add: bind_params_def)
  then show ?thesis by (simp add: set_client_columns_def)
qed

lemma find_append_new:
  "\<forall>x\<in>set xs. \<not> P x \<Longrightarrow> P y \<Longrightarrow> find P (xs @ [y]) = Some y"
  by (induction xs) auto

text \<open>
  C7. An authorized create of a client with a typed body and an unused identifier
  answers with the new id and the name and appends one row; none of its seven data
  columns is NULL; each column holds the submitted value where that is truthy and
  otherwise its default, the empty string, or the organization label for
  \<^verbatim>\<open>presenter\<close>; the public read of the new id returns these properties. An authorized
  create of a grant for an existing client, with a typed body and an unused identifier,
  answers with the new id and appends one row with \<^verbatim>\<open>sort_order\<close> 0; none of the nine
  data columns is NULL; each holds the submitted value where that is truthy and
  otherwise its default, the empty string, \<^verbatim>\<open>open\<close> for \<^verbatim>\<open>status\<close> or 70 for
  \<^verbatim>\<open>match_pct\<close>; the row is among those that the reads select for the client.
\<close>

theorem creates_fill_in_defaults:
  "(\<not> nullish body \<and> client_fields_typed body \<and>
      randomBytes_hex e 0 \<notin> set (map c_id (clients s)) \<longrightarrow>
      (\<exists>c. handle e (Some (ADMIN_PASS e)) (POST_api_clients body) s =
             (Response 200 (JObj [(''id'', JStr (randomBytes_hex e 0)),
                                  (''name'', field body ''name'')]),
              s\<lparr>clients := clients s @ [c]\<rparr>) \<and>
           c_id c = randomBytes_hex e 0 \<and>
           NULL \<notin> set [c_name c, c_contact c, c_sector c, c_email c, c_phone c, c_message c,
             c_presenter c] \<and>
           (\<forall>k\<in>set client_columns. map_of (client_props c) k =
              Some (if truthy (field body k) then field body k else client_default k)) \<and>
           fst (get_api_client (randomBytes_hex e 0) (s\<lparr>clients := clients s @ [c]\<rparr>)) =
             Response 200 (JObj (client_props c @ [(''grants'', JArr (publicGrants
               (select_grants (s\<lparr>clients := clients s @ [c]\<rparr>) (randomBytes_hex e 0))))])))) \<and>
   (\<not> nullish body \<and> grant_fields_typed body \<and> cid \<in> set (map c_id (clients s)) \<and>
      randomBytes_hex e 0 \<notin> set (map g_id (grants s)) \<longrightarrow>
      (\<exists>g. handle e (Some (ADMIN_PASS e)) (POST_api_clients_grants cid body) s =
             (Response 200 (JObj [(''id'', JStr (randomBytes_hex e 0))]),
              s\<lparr>grants := grants s @ [g]\<rparr>) \<and>
           g_id g = randomBytes_hex e 0 \<and> g_client_id g = cid \<and> g_sort_order g = 0 \<and>
           NULL \<notin> set [g_name g, g_org g, g_cat g, g_amount g, g_cover g, g_deadline g,
             g_status g, g_match_pct g, g_notes g] \<and>
           (\<forall>k\<in>set grant_columns. map_of (grant_props g) k =
              Some (if truthy (field body k) then field body k else grant_default k)) \<and>
           g \<in> set (select_grants (s\<lparr>grants := grants s @ [g]\<rparr>) cid)))"
proof (intro conjI impI)
  assume a: "\<not> nullish body \<and> client_fields_typed body \<and>
      randomBytes_hex e 0 \<notin> set (map c_id (clients s))"
  let ?i = "randomBytes_hex e 0"
  from a have typed: "client_fields_typed body" by simp
  from bind_typed_client [OF typed, of e] obtain cs where
    cs: "bind_params 7 (client_args body) = Inr cs" "text_affinity e (cs ! 0) \<noteq> NULL"
      "\<And>c. client_props (set_client_columns e cs c) =
        (''id'', JStr (c_id c)) # zip client_columns (client_args body) @
        [(''created_at'', JStr (c_created_at c)), (''updated_at'', JStr (c_updated_at c))]"
    by blast
  let ?c = "set_client_columns e cs
     \<lparr>c_id = ?i, c_name = NULL, c_contact = NULL, c_sector = NULL, c_email = NULL,
      c_phone = NULL, c_message = NULL, c_presenter = NULL,
      c_created_at = datetime_now e, c_updated_at = datetime_now e\<rparr>"
  let ?s' = "s\<lparr>clients := clients s @ [?c]\<rparr>"
  have run: "handle e (Some (ADMIN_PASS e)) (POST_api_clients body) s =
      (Response 200 (JObj [(''id'', JStr ?i), (''name'', field body ''name'')]), ?s')"
    using a cs(1,2) by (simp add: requireAdmin_def post_api_clients_def insert_client_def Let_def)
  have id: "c_id ?c = ?i" by simp
  have nn: "NULL \<notin> set [c_name ?c, c_contact ?c, c_sector ?c, c_email ?c, c_phone ?c,
      c_message ?c, c_presenter ?c]"
    by (rule typed_client_cells_not_null [OF typed cs(1)])
  have name: "is_string (field body ''name'')" using typed by (simp add: client_fields_typed_def)
  have cols: "\<forall>k\<in>set client_columns. map_of (client_props ?c) k =
      Some (if truthy (field body k) then field body k else client_default k)"
    using columns_of_client_props [OF _ name cs(3)] by blast
  from a have "\<forall>x\<in>set (clients s). \<not> c_id x = ?i" by (metis image_eqI set_map)
  then have "find (\<lambda>c. c_id c = ?i) (clients s @ [?c]) = Some ?c"
    using id by (rule find_append_new)
  then have "select_client ?s' ?i = Some ?c"
    by (simp add: select_client_def)
  then have get: "fst (get_api_client ?i ?s') = Response 200 (JObj (client_props ?c @
      [(''grants'', JArr (publicGrants (select_grants ?s' ?i)))]))"
    by (simp add: get_api_client_def)
  show "\<exists>c. handle e (Some (ADMIN_PASS e)) (POST_api_clients body) s =
             (Response 200 (JObj [(''id'', JStr (randomBytes_hex e 0)),
                                  (''name'', field body ''name'')]),
              s\<lparr>clients := clients s @ [c]\<rparr>) \<and>
           c_id c = randomBytes_hex e 0 \<and>
           NULL \<notin> set [c_name c, c_contact c, c_sector c, c_email c, c_phone c, c_message c,
             c_presenter c] \<and>
           (\<forall>k\<in>set client_columns. map_of (client_props c) k =
              Some (if truthy (field body k) then field body k else client_default k)) \<and>
           fst (get_api_client (randomBytes_hex e 0) (s\<lparr>clients := clients s @ [c]\<rparr>)) =
             Response 200 (JObj (client_props c @ [(''grants'', JArr (publicGrants
               (select_grants (s\<lparr>clients := clients s @ [c]\<rparr>) (randomBytes_hex e 0))))]))"
    by (intro exI [of _ ?c] conjI) (fact run id nn cols get)+
next
  assume a: "\<not> nullish body \<and> grant_fields_typed body \<and> cid \<in> set (map c_id (clients s)) \<and>
      randomBytes_hex e 0 \<notin> set (map g_id (grants s))"
  let ?i = "randomBytes_hex e 0"
  from a have typed: "grant_fields_typed body" by simp
  from bind_typed_grant [OF typed, of e] obtain cs where
    cs: "bind_params 9 (grant_args body) = Inr cs"
      "\<And>g. grant_props (set_grant_columns e cs g) =
        (''id'', JStr (g_id g)) # (''client_id'', JStr (g_client_id g)) #
        zip grant_columns (grant_args body) @ [(''sort_order'', JNum (g_sort_order g))]"
    by blast
  let ?g = "set_grant_columns e cs
     \<lparr>g_rowid = next_rowid (grants s), g_id = ?i, g_client_id = cid, g_name = NULL,
      g_org = NULL, g_cat = NULL, g_amount = NULL, g_cover = NULL, g_deadline = NULL,
      g_status = NULL, g_match_pct = NULL, g_notes = NULL, g_sort_order = 0\<rparr>"
  let ?s' = "s\<lparr>grants := grants s @ [?g]\<rparr>"
  have run: "handle e (Some (ADMIN_PASS e)) (POST_api_clients_grants cid body) s =
      (Response 200 (JObj [(''id'', JStr ?i)]), ?s')"
    using a cs(1)
    by (simp add: requireAdmin_def post_api_clients_grants_def insert_grant_def Let_def)
  have keys: "g_id ?g = ?i" "g_client_id ?g = cid" "g_sort_order ?g = 0" by simp_all
  have nn: "NULL \<notin> set [g_name ?g, g_org ?g, g_cat ?g, g_amount ?g, g_cover ?g, g_deadline ?g,
      g_status ?g, g_match_pct ?g, g_notes ?g]"
    by (rule typed_grant_cells_not_null [OF typed cs(1)])
  have cols: "\<forall>k\<in>set grant_columns. map_of (grant_props ?g) k =
      Some (if truthy (field body k) then field body k else grant_default k)"
    using columns_of_grant_props [OF _ cs(2)] by blast
  have sel: "?g \<in> set (select_grants ?s' cid)"
    by (simp add: set_select_grants)
  show "\<exists>g. handle e (Some (ADMIN_PASS e)) (POST_api_clients_grants cid body) s =
             (Response 200 (JObj [(''id'', JStr (randomBytes_hex e 0))]),
              s\<lparr>grants := grants s @ [g]\<rparr>) \<and>
           g_id g = randomBytes_hex e 0 \<and> g_client_id g = cid \<and> g_sort_order g = 0 \<and>
           NULL \<notin> set [g_name g, g_org g, g_cat g, g_amount g, g_cover g, g_deadline g,
             g_status g, g_match_pct g, g_notes g] \<and>
           (\<forall>k\<in>set grant_columns. map_of (grant_props g) k =
              Some (if truthy (field body k) then field body k else grant_default k)) \<and>
           g \<in> set (select_grants (s\<lparr>grants := grants s @ [g]\<rparr>) cid)"
    by (intro exI [of _ ?g] conjI) (fact run keys nn cols sel)+
qed

theorem creates_fill_in_defaults_witness:
  "\<not> nullish (JObj [(''name'', JStr ''Acme''), (''sector'', JStr ''Tech'')]) \<and>
   client_fields_typed (JObj [(''name'', JStr ''Acme''), (''sector'', JStr ''Tech'')]) \<and>
   randomBytes_hex (example_env ''2024-04-30 09:00:00'' [''00000000000000a0'']) 0
     \<notin> set (map c_id (clients empty_store)) \<and>
   handle (example_env ''2024-04-30 09:00:00'' [''00000000000000a0'']) (Some ''grants2024'')
     (POST_api_clients (JObj [(''name'', JStr ''Acme''), (''sector'', JStr ''Tech'')])) empty_store =
     (Response 200 (JObj [(''id'', JStr ''00000000000000a0''), (''name'', JStr ''Acme'')]),
      \<lparr>clients = [example_client], grants = []\<rparr>) \<and>
   client_props example_client =
     [(''id'', JStr ''00000000000000a0''), (''name'', JStr ''Acme''), (''contact'', JStr ''''),
      (''sector'', JStr ''Tech''), (''email'', JStr ''''), (''phone'', JStr ''''),
      (''message'', JStr ''''), (''presenter'', JStr DEFAULT_PRESENTER),
      (''created_at'', JStr ''2024-04-30 09:00:00''), (''updated_at'', JStr ''2024-04-30 09:00:00'')] \<and>
   grant_fields_typed (JObj [(''name'', JStr ''Green loan''), (''notes'', JStr ''internal'')]) \<and>
   handle (example_env ''2024-04-30 11:32:00'' [''00000000000000b2'']) (Some ''grants2024'')
     (POST_api_clients_grants ''00000000000000a1''
        (JObj [(''name'', JStr ''Green loan''), (''notes'', JStr ''internal'')]))
     \<lparr>clients = [example_client, example_client2], grants = [example_grant, example_grant2]\<rparr> =
     (Response 200 (JObj [(''id'', JStr ''00000000000000b2'')]),
      \<lparr>clients = [example_client, example_client2],
       grants = [example_grant, example_grant2, example_grant3]\<rparr>) \<and>
   grant_props example_grant3 =
     [(''id'', JStr ''00000000000000b2''), (''client_id'', JStr ''00000000000000a1''),
      (''name'', JStr ''Green loan''), (''org'', JStr ''''), (''cat'', JStr ''''),
      (''amount'', JStr ''''), (''cover'', JStr ''''), (''deadline'', JStr ''''),
      (''status'', JStr ''open''), (''match_pct'', JNum 70), (''notes'', JStr ''internal''),
      (''sort_order'', JNum 0)]"
  using
    creates_fill_in_defaults [of "JObj [(''name'', JStr ''Acme''), (''sector'', JStr ''Tech'')]"
      "example_env ''2024-04-30 09:00:00'' [''00000000000000a0'']" empty_store
      "''00000000000000a1''"]
    creates_fill_in_defaults [of "JObj [(''name'', JStr ''Green loan''), (''notes'', JStr ''internal'')]"
      "example_env ''2024-04-30 11:32:00'' [''00000000000000b2'']"
      "\<lparr>clients = [example_client, example_client2], grants = [example_grant, example_grant2]\<rparr>"
      "''00000000000000a1''"]
  by (simp add: example_defs handler_defs statement_defs client_fields_typed_def
      grant_fields_typed_def)

end
